theory Spec2Isabelle
  imports Main "HOL-Library.Sublist"
begin

section \<open>Strings of the scripting language\<close>

text \<open>
  A string of the program is a list of characters; a \<^typ>\<open>char\<close> stands for one code
  point below 256, so the character tables below (letters, digits, white space) are the
  ones of the interpreter restricted to that range.
\<close>

definition code_point :: "char \<Rightarrow> nat" where
  "code_point c = of_char c"

definition is_ascii_lower :: "char \<Rightarrow> bool" where
  "is_ascii_lower c = (97 \<le> code_point c \<and> code_point c \<le> 122)"

definition is_ascii_upper :: "char \<Rightarrow> bool" where
  "is_ascii_upper c = (65 \<le> code_point c \<and> code_point c \<le> 90)"

definition is_ascii_digit :: "char \<Rightarrow> bool" where
  "is_ascii_digit c = (48 \<le> code_point c \<and> code_point c \<le> 57)"

text \<open>White space as \<^verbatim>\<open>str.strip()\<close>, \<^verbatim>\<open>str.split()\<close> and \<^verbatim>\<open>int()\<close> see it:
  tab to carriage return, the four separators 28 to 31, space, NEL and no-break space.\<close>

definition is_space :: "char \<Rightarrow> bool" where
  "is_space c =
     (let n = code_point c
      in (9 \<le> n \<and> n \<le> 13) \<or> (28 \<le> n \<and> n \<le> 32) \<or> n = 133 \<or> n = 160)"

text \<open>\<^verbatim>\<open>s.strip(chars)\<close>: drop the characters of the class at both ends.\<close>

definition strip_where :: "(char \<Rightarrow> bool) \<Rightarrow> string \<Rightarrow> string" where
  "strip_where P s = rev (dropWhile P (rev (dropWhile P s)))"

definition strip :: "string \<Rightarrow> string" where
  "strip s = strip_where is_space s"

text \<open>\<^verbatim>\<open>sub in s\<close>: the substring test.\<close>

fun contains :: "string \<Rightarrow> string \<Rightarrow> bool" where
  "contains sub [] = (sub = [])"
| "contains sub (c # cs) = (prefix sub (c # cs) \<or> contains sub cs)"

text \<open>\<^verbatim>\<open>s.split(sep)[0]\<close> for a one-character separator: the text before its first
  occurrence, the whole string when there is none.\<close>

definition before_first :: "char \<Rightarrow> string \<Rightarrow> string" where
  "before_first sep s = takeWhile (\<lambda>c. c \<noteq> sep) s"

text \<open>\<^verbatim>\<open>s.split(sep)\<close> for a one-character separator: every piece, empty ones included.\<close>

fun split_on :: "char \<Rightarrow> string \<Rightarrow> string list" where
  "split_on sep [] = [[]]"
| "split_on sep (c # cs) =
     (if c = sep then [] # split_on sep cs
      else (case split_on sep cs of
              [] \<Rightarrow> [[c]]
            | p # ps \<Rightarrow> (c # p) # ps))"

section \<open>The name sanitizer\<close>

text \<open>
  \<^verbatim>\<open>
  def sanitize_name(name):
      allowed_characters = re.compile(r'[^a-zA-Z0-9_\-./]')
      sanitized = allowed_characters.sub('_', name)
      sanitized = sanitized.replace('//', '/').strip('/')
      return sanitized
  \<close>
\<close>

text \<open>The characters outside the class \<^verbatim>\<open>[^a-zA-Z0-9_\-./]\<close>.\<close>

definition allowed_character :: "char \<Rightarrow> bool" where
  "allowed_character c =
     (is_ascii_lower c \<or> is_ascii_upper c \<or> is_ascii_digit c \<or>
      c = CHR ''_'' \<or> c = CHR ''-'' \<or> c = CHR ''.'' \<or> c = CHR ''/'')"

text \<open>\<^verbatim>\<open>allowed_characters.sub('_', name)\<close>: every match is one character.\<close>

definition sub_disallowed :: "string \<Rightarrow> string" where
  "sub_disallowed name = map (\<lambda>c. if allowed_character c then c else CHR ''_'') name"

text \<open>\<^verbatim>\<open>s.replace('//', '/')\<close>: one pass from the left over non-overlapping
  occurrences; the text put in is not scanned again.\<close>

fun replace_double_slash :: "string \<Rightarrow> string" where
  "replace_double_slash (a # b # cs) =
     (if a = CHR ''/'' \<and> b = CHR ''/'' then CHR ''/'' # replace_double_slash cs
      else a # replace_double_slash (b # cs))"
| "replace_double_slash cs = cs"

definition sanitize_name :: "string \<Rightarrow> string" where
  "sanitize_name name =
     (let sanitized = sub_disallowed name;
          sanitized = strip_where (\<lambda>c. c = CHR ''/'') (replace_double_slash sanitized)
      in sanitized)"

section \<open>URL cleaning\<close>

text \<open>
  \<^verbatim>\<open>
  def clean_url(url):
      url = re.sub(r'^https?://', '', url)
      url = url.split('#')[0]
      url = url.split('?')[0]
      return sanitize_name(url)
  \<close>
\<close>

text \<open>The length of the match of \<^verbatim>\<open>^https?://\<close> at the start of the string, if any.
  Without the multi-line flag the anchor holds at position 0 only, so there is at most one
  match to replace.\<close>

definition match_scheme :: "string \<Rightarrow> nat option" where
  "match_scheme url =
     (if prefix ''http'' url then
        (let r = drop 4 url;
             r' = (if prefix ''s'' r then drop 1 r else r)
         in if prefix ''://'' r' then Some (length url - length r' + 3) else None)
      else None)"

definition sub_scheme :: "string \<Rightarrow> string" where
  "sub_scheme url = (case match_scheme url of None \<Rightarrow> url | Some n \<Rightarrow> drop n url)"

definition clean_url :: "string \<Rightarrow> string" where
  "clean_url url =
     (let url = sub_scheme url;
          url = before_first (CHR ''#'') url;
          url = before_first (CHR ''?'') url
      in sanitize_name url)"

section \<open>Conversions and joins\<close>

text \<open>\<^verbatim>\<open>sep.join(xs)\<close>.\<close>

fun join :: "string \<Rightarrow> string list \<Rightarrow> string" where
  "join sep [] = []"
| "join sep [x] = x"
| "join sep (x # y # ys) = x @ sep @ join sep (y # ys)"

text \<open>\<^verbatim>\<open>s.split()\<close>: the maximal runs of characters that are not white space.\<close>

fun split_ws_from :: "string \<Rightarrow> string \<Rightarrow> string list" where
  "split_ws_from cur [] = (if cur = [] then [] else [cur])"
| "split_ws_from cur (c # cs) =
     (if is_space c then (if cur = [] then split_ws_from [] cs else cur # split_ws_from [] cs)
      else split_ws_from (cur @ [c]) cs)"

definition split_ws :: "string \<Rightarrow> string list" where
  "split_ws s = split_ws_from [] s"

text \<open>\<^verbatim>\<open>os.path.join(a, b)\<close> on a POSIX system: an absolute second part replaces
  the first.\<close>

definition path_join :: "string \<Rightarrow> string \<Rightarrow> string" where
  "path_join a b =
     (if prefix ''/'' b then b
      else if a = [] \<or> suffix ''/'' a then a @ b
      else a @ ''/'' @ b)"

text \<open>\<^verbatim>\<open>str(n)\<close> for an integer.\<close>

definition digit_char :: "nat \<Rightarrow> char" where
  "digit_char d = char_of (48 + d)"

fun str_nat :: "nat \<Rightarrow> string" where
  "str_nat n = (if n < 10 then [digit_char n] else str_nat (n div 10) @ [digit_char (n mod 10)])"

declare str_nat.simps [simp del]

definition str_int :: "int \<Rightarrow> string" where
  "str_int i = (if i < 0 then CHR ''-'' # str_nat (nat (- i)) else str_nat (nat i))"

text \<open>The exceptions the modelled code can meet. A \<open>FileNotFoundError\<close> carries its
  message, as a \<open>PermissionError\<close> does: the program prints the message of an error
  it catches. The other two are never caught by the program.\<close>

datatype py_error = FileNotFoundError string | PermissionError string | ValueError | EOFError

text \<open>
  \<^verbatim>\<open>int(s)\<close> for a string, base 10: white space around the literal is dropped, one
  sign may lead, digits follow, and single underscores may stand between digits. Below
  code point 256 the only decimal digits are \<open>0\<close> to \<open>9\<close>. The conversion does
  not take the separators 28 to 31 for white space, unlike \<^verbatim>\<open>str.strip()\<close>. The
  interpreter's configurable limit on the number of digits of a literal is not part of
  the model.
\<close>

definition is_int_space :: "char \<Rightarrow> bool" where
  "is_int_space c =
     (let n = code_point c
      in (9 \<le> n \<and> n \<le> 13) \<or> n = 32 \<or> n = 133 \<or> n = 160)"

definition digit_value :: "char \<Rightarrow> nat" where
  "digit_value c = code_point c - 48"

fun int_digits :: "nat \<Rightarrow> string \<Rightarrow> nat option" where
  "int_digits acc [] = Some acc"
| "int_digits acc (c # cs) =
     (if is_ascii_digit c then int_digits (10 * acc + digit_value c) cs
      else if c = CHR ''_'' then
        (case cs of
           [] \<Rightarrow> None
         | d # ds \<Rightarrow> if is_ascii_digit d then int_digits (10 * acc + digit_value d) ds else None)
      else None)"

definition int_literal :: "string \<Rightarrow> int option" where
  "int_literal s =
     (let t = strip_where is_int_space s;
          neg = prefix ''-'' t;
          u = (if prefix ''-'' t \<or> prefix ''+'' t then drop 1 t else t)
      in case u of
           [] \<Rightarrow> None
         | c # r \<Rightarrow>
             if is_ascii_digit c
             then map_option (\<lambda>n. if neg then - int n else int n) (int_digits (digit_value c) r)
             else None)"

definition py_int :: "string \<Rightarrow> py_error + int" where
  "py_int s = (case int_literal s of None \<Rightarrow> Inl ValueError | Some n \<Rightarrow> Inr n)"

text \<open>\<^verbatim>\<open>s.isdigit()\<close>: not empty and every character has the digit property; below
  code point 256 these are \<open>0\<close> to \<open>9\<close> and the superscripts two, three and one.\<close>

definition is_digit_character :: "char \<Rightarrow> bool" where
  "is_digit_character c =
     (is_ascii_digit c \<or> code_point c = 178 \<or> code_point c = 179 \<or> code_point c = 185)"

definition isdigit :: "string \<Rightarrow> bool" where
  "isdigit s = (s \<noteq> [] \<and> list_all is_digit_character s)"

section \<open>The environment and the world\<close>

text \<open>What the program writes to the console, asks on standard input, and which
  external commands it starts (argument vector and the file standard output goes to).\<close>

datatype event = Print string | Prompt string | Spawn "string list" string

text \<open>
  The environment answers what the program cannot decide: the clock, whether a file can
  be opened for writing (\<open>None\<close>: yes), what starting a command does (the exception of
  the launch, or the lines the process writes to its standard output), the order in
  which the interpreter lists the elements of a set of integers, whether a path exists,
  what creating a directory does (\<open>None\<close>: it is created), and the working directory.
\<close>

record env =
  clock :: "nat \<Rightarrow> string"
  open_w :: "string \<Rightarrow> py_error option"
  spawn :: "string list \<Rightarrow> py_error + string list"
  list_of_set :: "int set \<Rightarrow> int list"
  path_exists :: "string \<Rightarrow> bool"
  makedirs :: "string \<Rightarrow> py_error option"
  getcwd :: string

text \<open>The world changes: the lines still waiting on standard input, the number of
  clock readings so far, the text files by path (as lists of lines), and the events so
  far, oldest first.\<close>

record world =
  stdin :: "string list"
  ticks :: nat
  files :: "string \<rightharpoonup> string list"
  trace :: "event list"

definition py_print :: "string \<Rightarrow> world \<Rightarrow> world" where
  "py_print s w = w\<lparr>trace := trace w @ [Print s]\<rparr>"

fun print_all :: "string list \<Rightarrow> world \<Rightarrow> world" where
  "print_all [] w = w"
| "print_all (s # ss) w = print_all ss (py_print s w)"

text \<open>\<^verbatim>\<open>input(prompt)\<close>: the prompt is written, then one line is read; at end of
  input the call raises \<open>EOFError\<close>.\<close>

definition py_input :: "string \<Rightarrow> world \<Rightarrow> (py_error + string) \<times> world" where
  "py_input prompt w =
     (case stdin w of
        [] \<Rightarrow> (Inl EOFError, w\<lparr>trace := trace w @ [Prompt prompt]\<rparr>)
      | l # ls \<Rightarrow> (Inr l, w\<lparr>stdin := ls, trace := trace w @ [Prompt prompt]\<rparr>))"

text \<open>\<^verbatim>\<open>datetime.now().strftime("%Y_%m_%d_%H_%M_%S")\<close>.\<close>

definition timestamp_now :: "env \<Rightarrow> world \<Rightarrow> string \<times> world" where
  "timestamp_now e w = (clock e (ticks w), w\<lparr>ticks := Suc (ticks w)\<rparr>)"

text \<open>
  \<^verbatim>\<open>
  with open(output_file, "w") as file:
      subprocess.run(command.split(), stdout=file, text=True)
  \<close>
  Opening creates or empties the file; the exit status of the process is not read.
\<close>

definition run_to_file :: "env \<Rightarrow> string \<Rightarrow> string list \<Rightarrow> world \<Rightarrow> (py_error + unit) \<times> world" where
  "run_to_file e output_file argv w =
     (case open_w e output_file of
        Some err \<Rightarrow> (Inl err, w)
      | None \<Rightarrow>
          (let w1 = w\<lparr>files := (files w)(output_file \<mapsto> []),
                      trace := trace w @ [Spawn argv output_file]\<rparr>
           in case spawn e argv of
                Inl err \<Rightarrow> (Inl err, w1)
              | Inr out \<Rightarrow> (Inr (), w1\<lparr>files := (files w1)(output_file \<mapsto> out)\<rparr>)))"

section \<open>The output parser\<close>

text \<open>
  \<^verbatim>\<open>
  def parse_nmap_output(nmap_output_file):
      web_ports = set()
      try:
          with open(nmap_output_file, "r") as file:
              for line in file:
                  if "open" in line and ("http" in line or "https" in line):
                      port = line.split("/")[0].strip()
                      web_ports.add(int(port))
      except FileNotFoundError:
          print(f"Error: Nmap output file {nmap_output_file} not found.")
      return list(web_ports)
  \<close>
  The loop over the lines stops at the first exception of \<^verbatim>\<open>int\<close>; only a missing
  file is caught.
\<close>

fun scan_lines :: "int set \<Rightarrow> string list \<Rightarrow> py_error + int set" where
  "scan_lines web_ports [] = Inr web_ports"
| "scan_lines web_ports (line # rest) =
     (if contains ''open'' line \<and> (contains ''http'' line \<or> contains ''https'' line) then
        (let port = strip (before_first (CHR ''/'') line)
         in case py_int port of
              Inl err \<Rightarrow> Inl err
            | Inr p \<Rightarrow> scan_lines (insert p web_ports) rest)
      else scan_lines web_ports rest)"

definition parse_nmap_output :: "env \<Rightarrow> string \<Rightarrow> world \<Rightarrow> (py_error + int list) \<times> world" where
  "parse_nmap_output e nmap_output_file w =
     (case files w nmap_output_file of
        None \<Rightarrow>
          (Inr (list_of_set e {}),
           py_print (''Error: Nmap output file '' @ nmap_output_file @ '' not found.'') w)
      | Some lines \<Rightarrow>
          (case scan_lines {} lines of
             Inl err \<Rightarrow> (Inl err, w)
           | Inr web_ports \<Rightarrow> (Inr (list_of_set e web_ports), w)))"

section \<open>The port-scan runner\<close>

text \<open>The menu printed before the options are read.\<close>

definition nmap_menu :: "string list" where
  "nmap_menu =
     [''\<newline>Configuring Nmap scan...'',
      ''\<newline>Choose the type of scan options (you can select multiple):'',
      ''1. Stealth scan (SYN scan)'',
      ''2. Verbose output'',
      ''3. Full port scan (all 65535 ports)'',
      ''4. Version scan'',
      ''5. Top 1000 port scan (default)'',
      ''6. Ping scan (determine live hosts)'',
      ''7. OS detection'',
      ''8. Script scan (default Nmap scripts)'',
      ''9. Aggressive scan (OS + version + script + traceroute)'',
      ''10. Disable DNS resolution (faster scans)'',
      ''\<newline>Type the numbers corresponding to your choices. Type 'done' when finished.'']"

definition option_mapping :: "string \<rightharpoonup> string" where
  "option_mapping =
     map_of
       [(''1'', ''-sS''), (''2'', ''-v''), (''3'', ''-p-''), (''4'', ''-sV''), (''5'', []),
        (''6'', ''-sn''), (''7'', ''-O''), (''8'', ''-sC''), (''9'', ''-A''), (''10'', ''-n'')]"

text \<open>
  \<^verbatim>\<open>
  while True:
      choice = input("Enter your choice (1-10 or 'done'): ").strip()
      if choice == "done":
          if not nmap_options:
              print("No options selected. Adding default top 1000 port scan.")
              nmap_options.append("")
          break
      elif choice in option_mapping:
          if option_mapping[choice] not in nmap_options:
              nmap_options.append(option_mapping[choice])
              print(f"Added option {choice}")
          else:
              print(f"Option {choice} already added.")
      else:
          print("Invalid choice. Please select a valid option.")
  \<close>
\<close>

function collect_options :: "string list \<Rightarrow> world \<Rightarrow> (py_error + string list) \<times> world" where
  "collect_options nmap_options w =
     (case py_input ''Enter your choice (1-10 or 'done'): '' w of
        (Inl err, w1) \<Rightarrow> (Inl err, w1)
      | (Inr l, w1) \<Rightarrow>
          (let choice = strip l
           in if choice = ''done'' then
                (if nmap_options = []
                 then (Inr [[]],
                       py_print ''No options selected. Adding default top 1000 port scan.'' w1)
                 else (Inr nmap_options, w1))
              else
                (case option_mapping choice of
                   Some opt \<Rightarrow>
                     if opt \<notin> set nmap_options
                     then collect_options (nmap_options @ [opt])
                            (py_print (''Added option '' @ choice) w1)
                     else collect_options nmap_options
                            (py_print (''Option '' @ choice @ '' already added.'') w1)
                 | None \<Rightarrow>
                     collect_options nmap_options
                       (py_print ''Invalid choice. Please select a valid option.'' w1))))"
  by pat_completeness auto
termination
  by (relation "measure (\<lambda>(opts, w). length (stdin w))")
     (auto simp: py_input_def py_print_def split: list.splits)

declare collect_options.simps [simp del]

text \<open>
  \<^verbatim>\<open>
  nmap_options_str = " ".join(nmap_options)
  sanitized_ip_address = clean_url(ip_address)
  timestamp = datetime.now().strftime("%Y_%m_%d_%H_%M_%S")
  output_file = os.path.join(output_dir, f"nmap_scan_{sanitized_ip_address}_{timestamp}.txt")
  command = f"nmap {nmap_options_str} {ip_address}"
  print(f"\nRunning the Nmap scan: {command}")
  try:
      with open(output_file, "w") as file:
          subprocess.run(command.split(), stdout=file, text=True)
      print(f"\nNmap scan completed. Results saved to: {output_file}")
  except FileNotFoundError as e:
      print(f"Error saving results: {e}")
  return output_file
  \<close>
\<close>

definition nmap_output_file :: "string \<Rightarrow> string \<Rightarrow> string \<Rightarrow> string" where
  "nmap_output_file ip_address output_dir timestamp =
     path_join output_dir (''nmap_scan_'' @ clean_url ip_address @ ''_'' @ timestamp @ ''.txt'')"

definition nmap_command :: "string list \<Rightarrow> string \<Rightarrow> string" where
  "nmap_command nmap_options ip_address = ''nmap '' @ join '' '' nmap_options @ '' '' @ ip_address"

definition run_nmap :: "env \<Rightarrow> string \<Rightarrow> string \<Rightarrow> world \<Rightarrow> (py_error + string) \<times> world" where
  "run_nmap e ip_address output_dir w =
     (case collect_options [] (print_all nmap_menu w) of
        (Inl err, w1) \<Rightarrow> (Inl err, w1)
      | (Inr nmap_options, w1) \<Rightarrow>
          (let (timestamp, w2) = timestamp_now e w1;
               output_file = nmap_output_file ip_address output_dir timestamp;
               command = nmap_command nmap_options ip_address;
               w3 = py_print (''\<newline>Running the Nmap scan: '' @ command) w2
           in case run_to_file e output_file (split_ws command) w3 of
                (Inr u, w4) \<Rightarrow>
                  (Inr output_file,
                   py_print (''\<newline>Nmap scan completed. Results saved to: '' @ output_file) w4)
              | (Inl (FileNotFoundError msg), w4) \<Rightarrow>
                  (Inr output_file, py_print (''Error saving results: '' @ msg) w4)
              | (Inl err, w4) \<Rightarrow> (Inl err, w4)))"

section \<open>The content-discovery runner\<close>

text \<open>A port is an integer when it comes from the parser and a string when it comes
  from the comma-separated list the user types.\<close>

datatype port = IntPort int | StrPort string

text \<open>\<^verbatim>\<open>f"{port}"\<close>.\<close>

fun str_port :: "port \<Rightarrow> string" where
  "str_port (IntPort i) = str_int i"
| "str_port (StrPort s) = s"

text \<open>\<^verbatim>\<open>port == 443\<close>: a string never equals an integer.\<close>

fun equals_443 :: "port \<Rightarrow> bool" where
  "equals_443 (IntPort i) = (i = 443)"
| "equals_443 (StrPort s) = False"

text \<open>
  \<^verbatim>\<open>
  def run_gobuster(ip_address, web_ports, output_dir):
      for port in web_ports:
          protocol = "https" if port == 443 else "http"
          url = f"{protocol}://{ip_address}:{port}"
          wordlist = input(f"Enter the path to your wordlist for port {port}: ").strip()
          timestamp = datetime.now().strftime("%Y_%m_%d_%H_%M_%S")
          output_file = os.path.join(output_dir, f"{port}_gobuster_scan_{timestamp}.txt")
          command = f"gobuster dir -u {url} -w {wordlist}"
          print(f"\nRunning Gobuster scan on port {port}: {command}")
          try:
              with open(output_file, "w") as file:
                  subprocess.run(command.split(), stdout=file, text=True)
              print(f"Gobuster scan for port {port} completed. Results saved to: {output_file}")
          except FileNotFoundError as e:
              print(f"Error saving results: {e}")
  \<close>
\<close>

definition gobuster_url :: "string \<Rightarrow> port \<Rightarrow> string" where
  "gobuster_url ip_address port =
     (let protocol = (if equals_443 port then ''https'' else ''http'')
      in protocol @ ''://'' @ ip_address @ '':'' @ str_port port)"

definition wordlist_prompt :: "port \<Rightarrow> string" where
  "wordlist_prompt port = ''Enter the path to your wordlist for port '' @ str_port port @ '': ''"

definition gobuster_output_file :: "string \<Rightarrow> port \<Rightarrow> string \<Rightarrow> string" where
  "gobuster_output_file output_dir port timestamp =
     path_join output_dir (str_port port @ ''_gobuster_scan_'' @ timestamp @ ''.txt'')"

definition gobuster_command :: "string \<Rightarrow> string \<Rightarrow> string" where
  "gobuster_command url wordlist = ''gobuster dir -u '' @ url @ '' -w '' @ wordlist"

fun run_gobuster :: "env \<Rightarrow> string \<Rightarrow> port list \<Rightarrow> string \<Rightarrow> world \<Rightarrow> (py_error + unit) \<times> world" where
  "run_gobuster e ip_address [] output_dir w = (Inr (), w)"
| "run_gobuster e ip_address (port # web_ports) output_dir w =
     (let url = gobuster_url ip_address port
      in case py_input (wordlist_prompt port) w of
           (Inl err, w1) \<Rightarrow> (Inl err, w1)
         | (Inr l, w1) \<Rightarrow>
             (let wordlist = strip l;
                  (timestamp, w2) = timestamp_now e w1;
                  output_file = gobuster_output_file output_dir port timestamp;
                  command = gobuster_command url wordlist;
                  w3 = py_print (''\<newline>Running Gobuster scan on port '' @ str_port port @ '': '' @ command) w2
              in case run_to_file e output_file (split_ws command) w3 of
                   (Inr u, w4) \<Rightarrow>
                     run_gobuster e ip_address web_ports output_dir
                       (py_print (''Gobuster scan for port '' @ str_port port @
                                  '' completed. Results saved to: '' @ output_file) w4)
                 | (Inl (FileNotFoundError msg), w4) \<Rightarrow>
                     run_gobuster e ip_address web_ports output_dir
                       (py_print (''Error saving results: '' @ msg) w4)
                 | (Inl err, w4) \<Rightarrow> (Inl err, w4)))"

section \<open>The output directory\<close>

text \<open>\<^verbatim>\<open>s.lower()\<close> below code point 256.\<close>

definition lower_char :: "char \<Rightarrow> char" where
  "lower_char c =
     (let n = code_point c
      in if (65 \<le> n \<and> n \<le> 90) \<or> (192 \<le> n \<and> n \<le> 214) \<or> (216 \<le> n \<and> n \<le> 222)
         then char_of (n + 32) else c)"

definition lower :: "string \<Rightarrow> string" where
  "lower s = map lower_char s"

text \<open>\<^verbatim>\<open>except OSError as e\<close>: the message of the error when the clause catches it.\<close>

fun os_error_message :: "py_error \<Rightarrow> string option" where
  "os_error_message (FileNotFoundError msg) = Some msg"
| "os_error_message (PermissionError msg) = Some msg"
| "os_error_message ValueError = None"
| "os_error_message EOFError = None"

text \<open>
  \<^verbatim>\<open>
  def get_output_directory():
      while True:
          output_dir = input("Enter the output directory (use '.' for the current working directory): ").strip()
          sanitized_dir = sanitize_name(output_dir)
          if sanitized_dir != output_dir:
              print(f"Warning: The directory name contained invalid characters. Sanitized to: {sanitized_dir}")
              confirm = input("Do you want to use the sanitized directory name? (y/n): ").strip().lower()
              if confirm != 'y':
                  continue
          if sanitized_dir == ".":
              sanitized_dir = os.getcwd()
          if not os.path.exists(sanitized_dir):
              print(f"Directory '{sanitized_dir}' does not exist. Creating it...")
              try:
                  os.makedirs(sanitized_dir)
              except OSError as e:
                  print(f"Error creating directory: {e}")
                  continue
          return sanitized_dir
  \<close>
  The first half of the body asks for the name and, when sanitizing changed it, for the
  confirmation; \<open>None\<close> stands for \<^verbatim>\<open>continue\<close>.
\<close>

definition ask_output_directory :: "world \<Rightarrow> (py_error + string option) \<times> world" where
  "ask_output_directory w =
     (case py_input ''Enter the output directory (use '.' for the current working directory): '' w of
        (Inl err, w1) \<Rightarrow> (Inl err, w1)
      | (Inr l, w1) \<Rightarrow>
          (let output_dir = strip l;
               sanitized_dir = sanitize_name output_dir
           in if sanitized_dir \<noteq> output_dir then
                (let w2 = py_print (''Warning: The directory name contained invalid characters. Sanitized to: '' @ sanitized_dir) w1
                 in case py_input ''Do you want to use the sanitized directory name? (y/n): '' w2 of
                      (Inl err, w3) \<Rightarrow> (Inl err, w3)
                    | (Inr c, w3) \<Rightarrow>
                        (let confirm = lower (strip c)
                         in if confirm \<noteq> ''y'' then (Inr None, w3) else (Inr (Some sanitized_dir), w3)))
              else (Inr (Some sanitized_dir), w1)))"

function get_output_directory :: "env \<Rightarrow> world \<Rightarrow> (py_error + string) \<times> world" where
  "get_output_directory e w =
     (case ask_output_directory w of
        (Inl err, w1) \<Rightarrow> (Inl err, w1)
      | (Inr None, w1) \<Rightarrow> get_output_directory e w1
      | (Inr (Some d), w1) \<Rightarrow>
          (let sanitized_dir = (if d = ''.'' then getcwd e else d)
           in if \<not> path_exists e sanitized_dir then
                (let w2 = py_print (''Directory '' @ [CHR 0x27] @ sanitized_dir @ [CHR 0x27] @
                                    '' does not exist. Creating it...'') w1
                 in case makedirs e sanitized_dir of
                      None \<Rightarrow> (Inr sanitized_dir, w2)
                    | Some err \<Rightarrow>
                        (case os_error_message err of
                           Some msg \<Rightarrow>
                             get_output_directory e (py_print (''Error creating directory: '' @ msg) w2)
                         | None \<Rightarrow> (Inl err, w2)))
              else (Inr sanitized_dir, w1)))"
  by pat_completeness auto
termination
  by (relation "measure (\<lambda>(e, w). length (stdin w))")
     (auto simp: ask_output_directory_def py_input_def py_print_def Let_def
           split: list.splits if_splits)

declare get_output_directory.simps [simp del]

section \<open>The interaction loop\<close>

text \<open>
  The second pass over the result file:
  \<^verbatim>\<open>
  with open(nmap_output_file, "r") as file:
      lines = file.readlines()
      for line in lines:
          for port in web_ports:
              if f"{port}/" in line:
                  print(f"Port {port}: {line.strip()}")
  \<close>
\<close>

definition review_lines :: "int list \<Rightarrow> string list \<Rightarrow> string list" where
  "review_lines web_ports lines =
     concat (map (\<lambda>line.
       map (\<lambda>port. ''Port '' @ str_int port @ '': '' @ strip line)
         (filter (\<lambda>port. contains (str_int port @ ''/'') line) web_ports)) lines)"

text \<open>The selection sub-loop. One round of
  \<^verbatim>\<open>
  while True:
      print(f"\nPorts available for selection: {', '.join(map(str, web_ports))}" if web_ports else "No ports left to select.")
      print(f"Ports already added for Gobuster scan: {', '.join(map(str, gobuster_ports))}" if gobuster_ports else "No ports added yet.")
      port_choice = input("Enter a port to scan (or 'done' to finish selection): ").strip()
      if port_choice == "done":
          break
      elif port_choice.isdigit() and int(port_choice) in web_ports:
          selected_port = int(port_choice)
          gobuster_ports.append(selected_port)
          web_ports.remove(selected_port)
          print(f"Added port {selected_port} for Gobuster scan.")
      else:
          print(f"Invalid input. Please enter a valid port from the list: {', '.join(map(str, web_ports))}.")
  \<close>
  works on the pair of the available ports and the selected ports, and either goes on
  or breaks. The two copies of the loop in \<^verbatim>\<open>main\<close> differ in the prompt only.
\<close>

datatype 'a round = Continue 'a | Break 'a

definition port_list :: "int list \<Rightarrow> string" where
  "port_list ports = join '', '' (map str_int ports)"

definition select_round ::
  "string \<Rightarrow> int list \<times> int list \<Rightarrow> world \<Rightarrow> (py_error + (int list \<times> int list) round) \<times> world" where
  "select_round port_prompt st w =
     (let (web_ports, gobuster_ports) = st;
          w1 = py_print (if web_ports \<noteq> [] then ''\<newline>Ports available for selection: '' @ port_list web_ports
                         else ''No ports left to select.'') w;
          w2 = py_print (if gobuster_ports \<noteq> [] then ''Ports already added for Gobuster scan: '' @ port_list gobuster_ports
                         else ''No ports added yet.'') w1
      in case py_input port_prompt w2 of
           (Inl err, w3) \<Rightarrow> (Inl err, w3)
         | (Inr l, w3) \<Rightarrow>
             (let port_choice = strip l;
                  invalid = ''Invalid input. Please enter a valid port from the list: '' @ port_list web_ports @ ''.''
              in if port_choice = ''done'' then (Inr (Break (web_ports, gobuster_ports)), w3)
                 else if isdigit port_choice then
                   (case py_int port_choice of
                      Inl err \<Rightarrow> (Inl err, w3)
                    | Inr selected_port \<Rightarrow>
                        if selected_port \<in> set web_ports then
                          (Inr (Continue (remove1 selected_port web_ports, gobuster_ports @ [selected_port])),
                           py_print (''Added port '' @ str_int selected_port @ '' for Gobuster scan.'') w3)
                        else (Inr (Continue (web_ports, gobuster_ports)), py_print invalid w3))
                 else (Inr (Continue (web_ports, gobuster_ports)), py_print invalid w3)))"

function select_ports ::
  "string \<Rightarrow> int list \<times> int list \<Rightarrow> world \<Rightarrow> (py_error + int list \<times> int list) \<times> world" where
  "select_ports port_prompt st w =
     (case select_round port_prompt st w of
        (Inl err, w1) \<Rightarrow> (Inl err, w1)
      | (Inr (Break st1), w1) \<Rightarrow> (Inr st1, w1)
      | (Inr (Continue st1), w1) \<Rightarrow> select_ports port_prompt st1 w1)"
  by pat_completeness auto
termination
  by (relation "measure (\<lambda>(p, st, w). length (stdin w))")
     (auto simp: select_round_def py_input_def py_print_def Let_def
           split: list.splits if_splits sum.splits prod.splits)

declare select_ports.simps [simp del]

text \<open>The texts in which the copy of the menu after a port scan alone (choice 1) and the
  copy after "both" (choice 3) differ.\<close>

record menu_texts =
  skip_item :: string
  port_prompt :: string
  none_selected :: string
  no_further :: string

definition nmap_texts :: menu_texts where
  "nmap_texts =
     \<lparr>skip_item = ''3. Skip Gobuster and exit'',
      port_prompt = ''Enter a port to scan (or 'done' to finish selection): '',
      none_selected = ''No ports selected. Skipping Gobuster.'',
      no_further = ''No further scans selected. Skipping Gobuster.''\<rparr>"

definition both_texts :: menu_texts where
  "both_texts =
     \<lparr>skip_item = ''3. Exit without running Gobuster'',
      port_prompt = ''Enter a port to scan (or 'done' to finish): '',
      none_selected = ''No ports selected. Skipping Gobuster scan.'',
      no_further = ''No further scans selected. Exiting script.''\<rparr>"

text \<open>
  \<^verbatim>\<open>
  while True:
      print("\nDo you want to:")
      print(f"1. Scan all detected ports ({', '.join(map(str, web_ports))}) with Gobuster")
      print("2. Select specific ports")
      print("3. Skip Gobuster and exit")
      prompt = input("Enter your choice (1/2/3): ").strip()
      if prompt == "1":
          print(f"\nRunning Gobuster on all detected ports: {', '.join(map(str, web_ports))}")
          run_gobuster(ip_address, web_ports, output_dir)
          break
      elif prompt == "2":
          gobuster_ports = []
          while True: ...
          if gobuster_ports:
              print(f"\nFinal list of ports selected for Gobuster scan: {', '.join(map(str, gobuster_ports))}")
              run_gobuster(ip_address, gobuster_ports, output_dir)
          else:
              print("No ports selected. Skipping Gobuster.")
          break
      elif prompt == "3":
          print("No further scans selected. Skipping Gobuster.")
          break
      else:
          print("Invalid input. Please type '1', '2', or '3'.")
  \<close>
\<close>

function gobuster_menu ::
  "env \<Rightarrow> menu_texts \<Rightarrow> string \<Rightarrow> string \<Rightarrow> int list \<Rightarrow> world \<Rightarrow> (py_error + unit) \<times> world" where
  "gobuster_menu e t ip_address output_dir web_ports w =
     (let w1 = print_all
                 [''\<newline>Do you want to:'',
                  ''1. Scan all detected ports ('' @ port_list web_ports @ '') with Gobuster'',
                  ''2. Select specific ports'',
                  skip_item t] w
      in case py_input ''Enter your choice (1/2/3): '' w1 of
           (Inl err, w2) \<Rightarrow> (Inl err, w2)
         | (Inr l, w2) \<Rightarrow>
             (let prompt = strip l
              in if prompt = ''1'' then
                   run_gobuster e ip_address (map IntPort web_ports) output_dir
                     (py_print (''\<newline>Running Gobuster on all detected ports: '' @ port_list web_ports) w2)
                 else if prompt = ''2'' then
                   (case select_ports (port_prompt t) (web_ports, []) w2 of
                      (Inl err, w3) \<Rightarrow> (Inl err, w3)
                    | (Inr (web_ports1, gobuster_ports), w3) \<Rightarrow>
                        if gobuster_ports \<noteq> [] then
                          run_gobuster e ip_address (map IntPort gobuster_ports) output_dir
                            (py_print (''\<newline>Final list of ports selected for Gobuster scan: '' @
                                       port_list gobuster_ports) w3)
                        else (Inr (), py_print (none_selected t) w3))
                 else if prompt = ''3'' then (Inr (), py_print (no_further t) w2)
                 else gobuster_menu e t ip_address output_dir web_ports
                        (py_print ''Invalid input. Please type '1', '2', or '3'.'' w2)))"
  by pat_completeness auto
termination
  by (relation "measure (\<lambda>(e, t, ip, out, ports, w). length (stdin w))")
     (auto simp: py_input_def py_print_def split: list.splits)

declare gobuster_menu.simps [simp del]

text \<open>
  The branch of \<^verbatim>\<open>main\<close> for choice 1:
  \<^verbatim>\<open>
  nmap_output_file = run_nmap(ip_address, output_dir)
  web_ports = parse_nmap_output(nmap_output_file)
  if web_ports:
      print("\nPotential Web Application Ports Detected:")
      print("Review the following lines to ensure these are valid web applications before proceeding.")
      try:
          (the second pass)
      except FileNotFoundError:
          print(f"Error: Could not open Nmap output file {nmap_output_file} for review.")
      (the menu)
  else:
      print("No potential web application ports detected. Skipping Gobuster.")
  \<close>
  The branch for choice 3 has the same shape; there a result file missing at the second
  pass ends \<^verbatim>\<open>main\<close>, and nothing is printed when no port was found.
  \<open>scan_and_parse\<close> is the first two statements, which both branches begin with:
  it gives the caller the path and the parsed ports.
\<close>

definition scan_and_parse :: "env \<Rightarrow> string \<Rightarrow> string \<Rightarrow> world \<Rightarrow> (py_error + string \<times> int list) \<times> world" where
  "scan_and_parse e ip_address output_dir w =
     (case run_nmap e ip_address output_dir w of
        (Inl err, w1) \<Rightarrow> (Inl err, w1)
      | (Inr output_file, w1) \<Rightarrow>
          (case parse_nmap_output e output_file w1 of
             (Inl err, w2) \<Rightarrow> (Inl err, w2)
           | (Inr web_ports, w2) \<Rightarrow> (Inr (output_file, web_ports), w2)))"

definition review_heading :: "string list" where
  "review_heading =
     [''\<newline>Potential Web Application Ports Detected:'',
      ''Review the following lines to ensure these are valid web applications before proceeding.'']"

definition nmap_branch :: "env \<Rightarrow> string \<Rightarrow> string \<Rightarrow> world \<Rightarrow> (py_error + unit) \<times> world" where
  "nmap_branch e ip_address output_dir w =
     (case scan_and_parse e ip_address output_dir w of
        (Inl err, w1) \<Rightarrow> (Inl err, w1)
      | (Inr (output_file, web_ports), w1) \<Rightarrow>
          if web_ports \<noteq> [] then
            (let w2 = print_all review_heading w1;
                 w3 = (case files w2 output_file of
                         Some lines \<Rightarrow> print_all (review_lines web_ports lines) w2
                       | None \<Rightarrow> py_print (''Error: Could not open Nmap output file '' @ output_file @
                                            '' for review.'') w2)
             in gobuster_menu e nmap_texts ip_address output_dir web_ports w3)
          else (Inr (), py_print ''No potential web application ports detected. Skipping Gobuster.'' w1))"

definition both_branch :: "env \<Rightarrow> string \<Rightarrow> string \<Rightarrow> world \<Rightarrow> (py_error + unit) \<times> world" where
  "both_branch e ip_address output_dir w =
     (case scan_and_parse e ip_address output_dir w of
        (Inl err, w1) \<Rightarrow> (Inl err, w1)
      | (Inr (output_file, web_ports), w1) \<Rightarrow>
          if web_ports \<noteq> [] then
            (let w2 = print_all review_heading w1
             in case files w2 output_file of
                  Some lines \<Rightarrow>
                    gobuster_menu e both_texts ip_address output_dir web_ports
                      (print_all (review_lines web_ports lines) w2)
                | None \<Rightarrow>
                    (Inr (), py_print (''Error: Could not open Nmap output file '' @ output_file @
                                       '' for review.'') w2))
          else (Inr (), w1))"

text \<open>
  The branch for choice 2:
  \<^verbatim>\<open>
  print("\nConfiguring Gobuster scan...")
  web_ports = input("Enter the ports to scan (comma-separated, e.g., 80,443): ").split(",")
  run_gobuster(ip_address, web_ports, output_dir)
  \<close>
\<close>

definition gobuster_branch :: "env \<Rightarrow> string \<Rightarrow> string \<Rightarrow> world \<Rightarrow> (py_error + unit) \<times> world" where
  "gobuster_branch e ip_address output_dir w =
     (case py_input ''Enter the ports to scan (comma-separated, e.g., 80,443): ''
             (py_print ''\<newline>Configuring Gobuster scan...'' w) of
        (Inl err, w1) \<Rightarrow> (Inl err, w1)
      | (Inr l, w1) \<Rightarrow>
          (let web_ports = split_on (CHR '','') l
           in run_gobuster e ip_address (map StrPort web_ports) output_dir w1))"

text \<open>
  \<^verbatim>\<open>
  def main():
      print("Choose the tool to use:")
      print("1. Nmap")
      print("2. Gobuster")
      print("3. Both Nmap and Gobuster")
      choice = input("Enter your choice (1/2/3): ").strip()
      if choice in ["1", "2", "3"]:
          ip_address = input("Enter the target IP address or domain: ").strip()
          output_dir = get_output_directory()
      else:
          print("Invalid choice. Exiting.")
          return
      if choice == "1": ...
      elif choice == "2": ...
      elif choice == "3": ...
  \<close>
\<close>

definition main :: "env \<Rightarrow> world \<Rightarrow> (py_error + unit) \<times> world" where
  "main e w =
     (let w1 = print_all [''Choose the tool to use:'', ''1. Nmap'', ''2. Gobuster'',
                          ''3. Both Nmap and Gobuster''] w
      in case py_input ''Enter your choice (1/2/3): '' w1 of
           (Inl err, w2) \<Rightarrow> (Inl err, w2)
         | (Inr l, w2) \<Rightarrow>
             (let choice = strip l
              in if choice \<in> set [''1'', ''2'', ''3''] then
                   (case py_input ''Enter the target IP address or domain: '' w2 of
                      (Inl err, w3) \<Rightarrow> (Inl err, w3)
                    | (Inr l2, w3) \<Rightarrow>
                        (let ip_address = strip l2
                         in case get_output_directory e w3 of
                              (Inl err, w4) \<Rightarrow> (Inl err, w4)
                            | (Inr output_dir, w4) \<Rightarrow>
                                if choice = ''1'' then nmap_branch e ip_address output_dir w4
                                else if choice = ''2'' then gobuster_branch e ip_address output_dir w4
                                else both_branch e ip_address output_dir w4))
                 else (Inr (), py_print ''Invalid choice. Exiting.'' w2)))"

section \<open>Notions of the specification\<close>

text \<open>A candidate web service line: it contains the substring \<open>open\<close> and also
  \<open>http\<close> or \<open>https\<close>. \<^const>\<open>sublist\<close> is the contiguous-sublist relation.\<close>

definition candidate_web_service :: "string \<Rightarrow> bool" where
  "candidate_web_service line =
     (sublist ''open'' line \<and> (sublist ''http'' line \<or> sublist ''https'' line))"

text \<open>The token before the first \<open>/\<close> of a line, read as an integer.\<close>

definition port_of_line :: "string \<Rightarrow> int option" where
  "port_of_line line = int_literal (strip (before_first (CHR ''/'') line))"

definition ports_of_lines :: "string list \<Rightarrow> int set" where
  "ports_of_lines lines =
     {p. \<exists>line \<in> set lines. candidate_web_service line \<and> port_of_line line = Some p}"

text \<open>Stripping one leading \<open>http://\<close> or \<open>https://\<close>, once.\<close>

definition strip_scheme_once :: "string \<Rightarrow> string" where
  "strip_scheme_once url =
     (if prefix ''http://'' url then drop 7 url
      else if prefix ''https://'' url then drop 8 url
      else url)"

text \<open>Truncating at the first \<open>#\<close> or \<open>?\<close>.\<close>

definition truncate_at_marker :: "string \<Rightarrow> string" where
  "truncate_at_marker s = takeWhile (\<lambda>c. c \<noteq> CHR ''#'' \<and> c \<noteq> CHR ''?'') s"

text \<open>A sample environment: every file opens, every command runs and writes nothing,
  sets are listed in increasing order. And a world with given input and files.\<close>

definition quiet_env :: env where
  "quiet_env =
     \<lparr>clock = (\<lambda>n. ''2024_01_01_00_00_00''),
      open_w = (\<lambda>path. None),
      spawn = (\<lambda>argv. Inr []),
      list_of_set = sorted_list_of_set,
      path_exists = (\<lambda>path. True),
      makedirs = (\<lambda>path. None),
      getcwd = ''/tmp''\<rparr>"

definition world_of :: "string list \<Rightarrow> (string \<rightharpoonup> string list) \<Rightarrow> world" where
  "world_of input fs = \<lparr>stdin = input, ticks = 0, files = fs, trace = []\<rparr>"

text \<open>The interpreter lists every element of the set, each once.\<close>

definition lists_elements :: "env \<Rightarrow> int set \<Rightarrow> bool" where
  "lists_elements e S = (set (list_of_set e S) = S \<and> distinct (list_of_set e S))"

text \<open>The states of the selection sub-loop at the start of a round: the state it is
  entered with, and the state after every round that goes on.\<close>

inductive select_reaches ::
  "string \<Rightarrow> (int list \<times> int list) \<times> world \<Rightarrow> (int list \<times> int list) \<times> world \<Rightarrow> bool"
  for p :: string and c :: "(int list \<times> int list) \<times> world" where
  start: "select_reaches p c c"
| round: "select_reaches p c (st, w) \<Longrightarrow> select_round p st w = (Inr (Continue st1), w1)
          \<Longrightarrow> select_reaches p c (st1, w1)"

definition invalid_port_message :: "int list \<Rightarrow> string" where
  "invalid_port_message web_ports =
     ''Invalid input. Please enter a valid port from the list: '' @ port_list web_ports @ ''.''"

text \<open>Available and selected ports share no port, and neither lists a port twice.\<close>

definition disjoint_selection :: "int list \<times> int list \<Rightarrow> bool" where
  "disjoint_selection st =
     (set (snd st) \<inter> set (fst st) = {} \<and> distinct (snd st) \<and> distinct (fst st))"



text \<open>An environment in which every file opens and every command starts.\<close>

definition always_runs :: "env \<Rightarrow> bool" where
  "always_runs e = ((\<forall>path. open_w e path = None) \<and> (\<forall>argv. \<exists>out. spawn e argv = Inr out))"

text \<open>The events that are a question to the user or the start of a command.\<close>

fun is_interaction :: "event \<Rightarrow> bool" where
  "is_interaction (Print s) = False"
| "is_interaction (Prompt s) = True"
| "is_interaction (Spawn argv path) = True"

text \<open>What the content-discovery step is to do for a list of ports, one port after the
  other: ask for the wordlist of the port, then start the tool on the URL of the port,
  with the output file named after the port and the time.\<close>

fun scan_interactions ::
  "env \<Rightarrow> string \<Rightarrow> string \<Rightarrow> port list \<Rightarrow> string list \<Rightarrow> nat \<Rightarrow> event list" where
  "scan_interactions e ip_address output_dir [] answers k = []"
| "scan_interactions e ip_address output_dir (port # ports) [] k = []"
| "scan_interactions e ip_address output_dir (port # ports) (l # answers) k =
     [Prompt (wordlist_prompt port),
      Spawn (split_ws (gobuster_command (gobuster_url ip_address port) (strip l)))
            (gobuster_output_file output_dir port (clock e k))]
     @ scan_interactions e ip_address output_dir ports answers (Suc k)"

text \<open>The three ways in which a port scan leaves no web port behind: the output file
  cannot be opened because its directory is missing (then the file is not there to be
  read either), the scanner cannot be started because it is missing, or the scan runs and
  reports no candidate line.\<close>

definition no_web_ports_outcome :: "env \<Rightarrow> world \<Rightarrow> string \<Rightarrow> string list \<Rightarrow> bool" where
  "no_web_ports_outcome e w output_file argv =
     ((\<exists>msg. open_w e output_file = Some (FileNotFoundError msg) \<and> files w output_file = None) \<or>
      (\<exists>msg. open_w e output_file = None \<and> spawn e argv = Inl (FileNotFoundError msg)) \<or>
      (\<exists>lines. open_w e output_file = None \<and> spawn e argv = Inr lines \<and>
               filter candidate_web_service lines = []))"

text \<open>Two more sample environments: one in which no file may be written, one in which
  the directory of every output file is missing.\<close>

definition locked_env :: env where
  "locked_env = quiet_env\<lparr>open_w := (\<lambda>path. Some (PermissionError ''Permission denied''))\<rparr>"

definition missing_dir_env :: env where
  "missing_dir_env =
     quiet_env\<lparr>open_w := (\<lambda>path. Some (FileNotFoundError ''No such file or directory''))\<rparr>"

section \<open>Basic facts\<close>

lemma py_print_fields [simp]:
  "stdin (py_print s w) = stdin w" "ticks (py_print s w) = ticks w"
  "files (py_print s w) = files w" "trace (py_print s w) = trace w @ [Print s]"
  by (simp_all add: py_print_def)

lemma py_input_Cons:
  "stdin w = l # rest \<Longrightarrow>
     py_input p w = (Inr l, w\<lparr>stdin := rest, trace := trace w @ [Prompt p]\<rparr>)"
  by (simp add: py_input_def)

lemma py_input_Nil:
  "stdin w = [] \<Longrightarrow> py_input p w = (Inl EOFError, w\<lparr>trace := trace w @ [Prompt p]\<rparr>)"
  by (simp add: py_input_def)

lemma contains_sublist: "contains sub s = sublist sub s"
  by (induction s) (auto simp: sublist_Cons_right)

section \<open>The sanitizer and URL cleaning\<close>

lemma set_replace_double_slash: "set (replace_double_slash s) \<subseteq> set s"
  by (induction s rule: replace_double_slash.induct) auto

lemma set_strip_where: "set (strip_where P s) \<subseteq> set s"
  unfolding strip_where_def
  by (metis set_dropWhileD set_rev subsetI)

text \<open>The result holds allowed characters only, whatever the input.\<close>

lemma sanitize_name_allowed: "c \<in> set (sanitize_name s) \<Longrightarrow> allowed_character c"
proof -
  assume "c \<in> set (sanitize_name s)"
  then have "c \<in> set (sub_disallowed s)"
    using set_strip_where set_replace_double_slash unfolding sanitize_name_def Let_def by blast
  then show ?thesis
    by (auto simp: sub_disallowed_def allowed_character_def)
qed

lemma strip_where_ends:
  "strip_where P s \<noteq> [] \<Longrightarrow> \<not> P (hd (strip_where P s)) \<and> \<not> P (last (strip_where P s))"
proof -
  assume ne: "strip_where P s \<noteq> []"
  let ?d = "dropWhile P s"
  let ?r = "dropWhile P (rev ?d)"
  have r: "?r \<noteq> []" using ne by (simp add: strip_where_def)
  then have l: "\<not> P (hd ?r)" by (rule hd_dropWhile)
  have "?d \<noteq> []" using r by (cases "?d = []") simp_all
  then have h: "\<not> P (hd ?d)" by (rule hd_dropWhile)
  have "\<exists>ys. rev ?d = ys @ ?r" by (metis takeWhile_dropWhile_id)
  then obtain ys where "rev ?d = ys @ ?r" ..
  then have "?d = rev ?r @ rev ys" by (metis rev_append rev_rev_ident)
  then have "hd ?d = hd (rev ?r)" using r by (metis hd_append2 rev_is_Nil_conv)
  then show ?thesis using h l r by (simp add: strip_where_def hd_rev last_rev)
qed

text \<open>No separator leads or ends the result.\<close>

lemma sanitize_name_trimmed:
  "sanitize_name s \<noteq> [] \<Longrightarrow>
     hd (sanitize_name s) \<noteq> CHR ''/'' \<and> last (sanitize_name s) \<noteq> CHR ''/''"
  unfolding sanitize_name_def Let_def by (rule strip_where_ends)

text \<open>
  C2. The claim: sanitizing twice gives what sanitizing once gives. The code replaces
  \<open>//\<close> in one pass, so a run of three separators leaves two, and the second
  application changes the result again.
\<close>

theorem sanitize_name_twice_differs:
  "sanitize_name ''a///b'' = ''a//b'' \<and> sanitize_name (sanitize_name ''a///b'') = ''a/b''"
  by code_simp

text \<open>
  C3. The claim: every run of consecutive separators in the result is collapsed to one
  separator. The code leaves a double separator where the input has a run of three.
\<close>

theorem sanitize_name_leaves_double_slash:
  "sanitize_name ''///etc///passwd'' = ''etc//passwd''"
  by code_simp

lemma takeWhile_twice: "takeWhile P (takeWhile Q xs) = takeWhile (\<lambda>x. Q x \<and> P x) xs"
  by (induction xs) auto

lemma sub_scheme_once: "sub_scheme url = strip_scheme_once url"
proof (cases "prefix ''http://'' url")
  case True
  then obtain r where "url = ''http://'' @ r" by (auto simp: prefix_def)
  then show ?thesis
    by (simp add: sub_scheme_def match_scheme_def strip_scheme_once_def)
next
  case False
  note nh = this
  show ?thesis
  proof (cases "prefix ''https://'' url")
    case True
    then obtain r where "url = ''https://'' @ r" by (auto simp: prefix_def)
    then show ?thesis
      by (simp add: sub_scheme_def match_scheme_def strip_scheme_once_def)
  next
    case False
    have "match_scheme url = None"
    proof (cases "prefix ''http'' url")
      case False
      then show ?thesis by (simp add: match_scheme_def)
    next
      case True
      then obtain r where u: "url = ''http'' @ r" by (auto simp: prefix_def)
      show ?thesis
      proof (cases "prefix ''s'' r")
        case True
        then obtain r' where "r = ''s'' @ r'" by (auto simp: prefix_def)
        then show ?thesis using u False by (auto simp: match_scheme_def)
      next
        case False
        then show ?thesis using u nh by (auto simp: match_scheme_def)
      qed
    qed
    then show ?thesis using nh False by (simp add: sub_scheme_def strip_scheme_once_def)
  qed
qed

text \<open>
  C6. URL cleaning strips one leading \<open>http://\<close> or \<open>https://\<close>, once, cuts the
  string at the first \<open>#\<close> or \<open>?\<close>, and sanitizes what is left; the URL
  \<open>https://example.com/a?x=1#frag\<close> becomes \<open>example.com/a\<close>, and of two schemes in
  a row only the first goes.
\<close>

theorem clean_url_strips_truncates_sanitizes:
  "clean_url url = sanitize_name (truncate_at_marker (strip_scheme_once url))
   \<and> clean_url ''https://example.com/a?x=1#frag'' = ''example.com/a''
   \<and> strip_scheme_once ''http://https://a'' = ''https://a''"
proof -
  have "clean_url url = sanitize_name (truncate_at_marker (strip_scheme_once url))"
    by (simp add: clean_url_def before_first_def truncate_at_marker_def takeWhile_twice
          sub_scheme_once)
  moreover have "clean_url ''https://example.com/a?x=1#frag'' = ''example.com/a''"
    by code_simp
  moreover have "strip_scheme_once ''http://https://a'' = ''https://a''"
    by code_simp
  ultimately show ?thesis by simp
qed

section \<open>The output parser\<close>

lemma scan_lines_Cons:
  "scan_lines acc (l # ls) =
     (if candidate_web_service l
      then (case port_of_line l of
              None \<Rightarrow> Inl ValueError
            | Some p \<Rightarrow> scan_lines (insert p acc) ls)
      else scan_lines acc ls)"
  by (auto simp: contains_sublist candidate_web_service_def port_of_line_def py_int_def
           split: option.splits)

lemma scan_lines_acc:
  "scan_lines acc ls =
     (if list_all (\<lambda>l. port_of_line l \<noteq> None) (filter candidate_web_service ls)
      then Inr (acc \<union> ports_of_lines ls)
      else Inl ValueError)"
proof (induction ls arbitrary: acc)
  case Nil
  show ?case by (simp add: ports_of_lines_def)
next
  case (Cons l ls)
  show ?case
  proof (cases "candidate_web_service l")
    case False
    then have "ports_of_lines (l # ls) = ports_of_lines ls"
      by (auto simp: ports_of_lines_def)
    then show ?thesis
      using False Cons.IH [of acc] by (simp add: scan_lines_Cons del: scan_lines.simps)
  next
    case True
    show ?thesis
    proof (cases "port_of_line l")
      case None
      then show ?thesis
        using True by (simp add: scan_lines_Cons del: scan_lines.simps)
    next
      case (Some p)
      have "scan_lines acc (l # ls) = scan_lines (insert p acc) ls"
        using True Some by (simp add: scan_lines_Cons del: scan_lines.simps)
      moreover have "insert p acc \<union> ports_of_lines ls = acc \<union> ports_of_lines (l # ls)"
        using True Some by (auto simp: ports_of_lines_def)
      ultimately show ?thesis
        using Cons.IH [of "insert p acc"] True Some by (simp del: scan_lines.simps)
    qed
  qed
qed






section \<open>The selection sub-loop\<close>

lemma select_round_Continue:
  "select_round p (a, s) w = (Inr (Continue (a1, s1)), w1) \<Longrightarrow>
     (a1 = a \<and> s1 = s) \<or> (\<exists>q \<in> set a. a1 = remove1 q a \<and> s1 = s @ [q])"
  by (auto simp: select_round_def py_input_def Let_def
           split: list.splits if_splits sum.splits)

lemma select_round_Break:
  "select_round p st w = (Inr (Break st1), w1) \<Longrightarrow> st1 = st"
  by (cases st) (auto simp: select_round_def py_input_def Let_def
           split: list.splits if_splits sum.splits)

lemma round_keeps_disjoint:
  assumes "select_round p st w = (Inr (Continue st1), w1)" and "disjoint_selection st"
  shows "disjoint_selection st1 \<and> set (fst st1) \<union> set (snd st1) = set (fst st) \<union> set (snd st)"
proof -
  obtain a s where st: "st = (a, s)" by (cases st)
  obtain a1 s1 where st1: "st1 = (a1, s1)" by (cases st1)
  from assms(1) st st1
  consider "a1 = a \<and> s1 = s" | q where "q \<in> set a" "a1 = remove1 q a" "s1 = s @ [q]"
    using select_round_Continue by blast
  then show ?thesis
  proof cases
    case 1
    then show ?thesis using assms(2) st st1 by simp
  next
    case 2
    then show ?thesis using assms(2) st st1
      by (auto simp: disjoint_selection_def)
  qed
qed

lemma reaches_disjoint:
  assumes "select_reaches p (st0, w0) (st, w)" and "disjoint_selection st0"
  shows "disjoint_selection st \<and> set (fst st) \<union> set (snd st) = set (fst st0) \<union> set (snd st0)"
  using assms
proof (induction "(st, w)" arbitrary: st w rule: select_reaches.induct)
  case start
  then show ?case by simp
next
  case (round st' w' st1 w1)
  then show ?case using round_keeps_disjoint by metis
qed

lemma select_ports_disjoint:
  "disjoint_selection st \<Longrightarrow> select_ports p st w = (Inr st1, w1) \<Longrightarrow> disjoint_selection st1"
proof (induction p st w rule: select_ports.induct)
  case (1 p st w)
  show ?case
  proof (cases "select_round p st w")
    case (Pair r w2)
    show ?thesis
    proof (cases r)
      case (Inl err)
      then show ?thesis using Pair "1.prems"(2) by (simp add: select_ports.simps)
    next
      case (Inr rd)
      show ?thesis
      proof (cases rd)
        case (Break st2)
        then have "st2 = st" using Pair Inr select_round_Break by blast
        then show ?thesis using Pair Inr Break "1.prems" by (simp add: select_ports.simps)
      next
        case (Continue st2)
        then have d: "disjoint_selection st2"
          using Pair Inr round_keeps_disjoint "1.prems"(1) by blast
        have "select_ports p st2 w2 = (Inr st1, w1)"
          using Pair Inr Continue "1.prems"(2) by (simp add: select_ports.simps)
        then show ?thesis using "1.IH" Pair Inr Continue d by simp
      qed
    qed
  qed
qed

lemma isdigit_not_done: "isdigit s \<Longrightarrow> s \<noteq> ''done''"
  by (auto simp: isdigit_def is_digit_character_def is_ascii_digit_def code_point_def)

lemma round_accepts_available:
  assumes "stdin w = l # rest" "isdigit (strip l)" "py_int (strip l) = Inr q" "q \<in> set a"
  shows "\<exists>w1. select_round p (a, s) w = (Inr (Continue (remove1 q a, s @ [q])), w1)"
  using assms isdigit_not_done [OF assms(2)]
  by (simp add: select_round_def py_input_Cons Let_def)

lemma round_rejects_unavailable:
  assumes "stdin w = l # rest" "isdigit (strip l)" "py_int (strip l) = Inr q" "q \<notin> set a"
  shows "\<exists>w1. select_round p (a, s) w = (Inr (Continue (a, s)), w1)
            \<and> last (trace w1) = Print (invalid_port_message a)"
  using assms isdigit_not_done [OF assms(2)]
  by (simp add: select_round_def py_input_Cons Let_def invalid_port_message_def)

text \<open>
  C7. The sub-loop starts with the parsed ports, which list no port twice, and nothing
  selected. At the start of every round the selected ports and the available ports are
  disjoint, no port is selected twice, and together they are the parsed ports. Entering an
  available port moves it from the available to the selected ports; entering a port that
  is already selected changes nothing and is answered with the invalid-input message.
  The lists the loop ends with are disjoint as well.
\<close>

theorem selected_port_leaves_available_ports:
  assumes "distinct web_ports"
      and "select_reaches p ((web_ports, []), w0) ((avail, sel), w)"
  shows "set sel \<inter> set avail = {} \<and> distinct sel \<and> set sel \<union> set avail = set web_ports
     \<and> (\<forall>l rest q. stdin w = l # rest \<and> isdigit (strip l) \<and> py_int (strip l) = Inr q \<and> q \<in> set avail \<longrightarrow>
          (\<exists>w1. select_round p (avail, sel) w = (Inr (Continue (remove1 q avail, sel @ [q])), w1))
          \<and> q \<notin> set (remove1 q avail))
     \<and> (\<forall>l rest q. stdin w = l # rest \<and> isdigit (strip l) \<and> py_int (strip l) = Inr q \<and> q \<in> set sel \<longrightarrow>
          (\<exists>w1. select_round p (avail, sel) w = (Inr (Continue (avail, sel)), w1)
               \<and> last (trace w1) = Print (invalid_port_message avail)))
     \<and> (\<forall>st1 w1. select_ports p (avail, sel) w = (Inr st1, w1) \<longrightarrow>
          set (snd st1) \<inter> set (fst st1) = {} \<and> distinct (snd st1))"
proof -
  have d0: "disjoint_selection (web_ports, [])"
    using assms(1) by (simp add: disjoint_selection_def)
  from reaches_disjoint [OF assms(2) d0]
  have d: "disjoint_selection (avail, sel)" and u: "set avail \<union> set sel = set web_ports"
    by simp_all
  have a: "set sel \<inter> set avail = {}" "distinct sel" "distinct avail"
    using d by (simp_all add: disjoint_selection_def)
  have b: "\<forall>l rest q. stdin w = l # rest \<and> isdigit (strip l) \<and> py_int (strip l) = Inr q \<and> q \<in> set avail \<longrightarrow>
          (\<exists>w1. select_round p (avail, sel) w = (Inr (Continue (remove1 q avail, sel @ [q])), w1))
          \<and> q \<notin> set (remove1 q avail)"
    using round_accepts_available a(3) by simp
  have c: "\<forall>l rest q. stdin w = l # rest \<and> isdigit (strip l) \<and> py_int (strip l) = Inr q \<and> q \<in> set sel \<longrightarrow>
          (\<exists>w1. select_round p (avail, sel) w = (Inr (Continue (avail, sel)), w1)
               \<and> last (trace w1) = Print (invalid_port_message avail))"
  proof (intro allI impI)
    fix l rest q
    assume h: "stdin w = l # rest \<and> isdigit (strip l) \<and> py_int (strip l) = Inr q \<and> q \<in> set sel"
    then have "q \<notin> set avail" using a(1) by auto
    then show "\<exists>w1. select_round p (avail, sel) w = (Inr (Continue (avail, sel)), w1)
               \<and> last (trace w1) = Print (invalid_port_message avail)"
      using h round_rejects_unavailable by blast
  qed
  have e: "\<forall>st1 w1. select_ports p (avail, sel) w = (Inr st1, w1) \<longrightarrow>
          set (snd st1) \<inter> set (fst st1) = {} \<and> distinct (snd st1)"
    using select_ports_disjoint [OF d] by (auto simp: disjoint_selection_def)
  from a u b c e show ?thesis by blast
qed

theorem selected_port_leaves_available_ports_witness:
  "distinct [80, 443 :: int]
   \<and> select_reaches (port_prompt nmap_texts)
        (([80, 443], []), world_of [''80'', ''80'', ''done''] Map.empty)
        (([443], [80]),
         snd (select_round (port_prompt nmap_texts) ([80, 443], [])
                (world_of [''80'', ''80'', ''done''] Map.empty)))
   \<and> set [80 :: int] \<inter> set [443] = {}
   \<and> (\<exists>w1. select_round (port_prompt nmap_texts) ([443], [80])
               (snd (select_round (port_prompt nmap_texts) ([80, 443], [])
                      (world_of [''80'', ''80'', ''done''] Map.empty)))
             = (Inr (Continue ([443], [80])), w1)
           \<and> last (trace w1) = Print (invalid_port_message [443]))"
proof -
  let ?p = "port_prompt nmap_texts"
  let ?w0 = "world_of [''80'', ''80'', ''done''] Map.empty"
  let ?w1 = "snd (select_round ?p ([80, 443], []) ?w0)"
  have d: "distinct [80, 443 :: int]" by simp
  have "fst (select_round ?p ([80, 443], []) ?w0) = Inr (Continue ([443], [80]))"
    by code_simp
  then have r0: "select_round ?p ([80, 443], []) ?w0 = (Inr (Continue ([443], [80])), ?w1)"
    by (metis prod.collapse)
  have reach: "select_reaches ?p (([80, 443], []), ?w0) (([443], [80]), ?w1)"
    by (rule select_reaches.round [OF select_reaches.start r0])
  have i: "stdin ?w1 = ''80'' # [''done'']" by code_simp
  have g: "isdigit (strip ''80'')" by code_simp
  have v: "py_int (strip ''80'') = Inr 80" by code_simp
  from selected_port_leaves_available_ports [OF d reach] i g v
  have "\<exists>w1. select_round ?p ([443], [80]) ?w1 = (Inr (Continue ([443], [80])), w1)
           \<and> last (trace w1) = Print (invalid_port_message [443])"
    by (metis list.set_intros(1))
  with d reach show ?thesis by simp
qed


section \<open>The runners\<close>


lemma run_to_file_ok:
  "open_w e path = None \<Longrightarrow> spawn e argv = Inr out \<Longrightarrow>
     run_to_file e path argv w =
       (Inr (), w\<lparr>files := (files w)(path \<mapsto> out), trace := trace w @ [Spawn argv path]\<rparr>)"
  by (simp add: run_to_file_def)

lemma run_to_file_not_opened:
  "open_w e path = Some err \<Longrightarrow> run_to_file e path argv w = (Inl err, w)"
  by (simp add: run_to_file_def)

lemma run_to_file_not_launched:
  "open_w e path = None \<Longrightarrow> spawn e argv = Inl err \<Longrightarrow>
     run_to_file e path argv w =
       (Inl err, w\<lparr>files := (files w)(path \<mapsto> []), trace := trace w @ [Spawn argv path]\<rparr>)"
  by (simp add: run_to_file_def)


text \<open>One pass of the loop body of the runner, when the input has a line.\<close>

lemma run_gobuster_Cons:
  assumes "stdin w = l # rest"
  shows "run_gobuster e ip (port # ports) out w =
     (let w3 = w\<lparr>stdin := rest, ticks := Suc (ticks w),
                  trace := trace w @ [Prompt (wordlist_prompt port),
                    Print (''\<newline>Running Gobuster scan on port '' @ str_port port @ '': '' @
                           gobuster_command (gobuster_url ip port) (strip l))]\<rparr>;
          output_file = gobuster_output_file out port (clock e (ticks w))
      in case run_to_file e output_file
                (split_ws (gobuster_command (gobuster_url ip port) (strip l))) w3 of
           (Inr u, w4) \<Rightarrow>
             run_gobuster e ip ports out
               (py_print (''Gobuster scan for port '' @ str_port port @
                          '' completed. Results saved to: '' @ output_file) w4)
         | (Inl (FileNotFoundError msg), w4) \<Rightarrow>
             run_gobuster e ip ports out (py_print (''Error saving results: '' @ msg) w4)
         | (Inl err, w4) \<Rightarrow> (Inl err, w4))"
  using assms
  by (simp add: py_input_Cons timestamp_now_def py_print_def Let_def
           split: prod.splits sum.splits py_error.splits)


lemma run_gobuster_succeeds:
  assumes "always_runs e" and "length ports \<le> length (stdin w)"
  shows "\<exists>w1. run_gobuster e ip ports out w = (Inr (), w1)
           \<and> stdin w1 = drop (length ports) (stdin w)
           \<and> filter is_interaction (trace w1) =
               filter is_interaction (trace w) @ scan_interactions e ip out ports (stdin w) (ticks w)"
  using assms(2)
proof (induction ports arbitrary: w)
  case Nil
  then show ?case by simp
next
  case (Cons port ports)
  then obtain l rest where i: "stdin w = l # rest" by (cases "stdin w") auto
  let ?cmd = "gobuster_command (gobuster_url ip port) (strip l)"
  let ?file = "gobuster_output_file out port (clock e (ticks w))"
  let ?w3 = "w\<lparr>stdin := rest, ticks := Suc (ticks w),
                  trace := trace w @ [Prompt (wordlist_prompt port),
                    Print (''\<newline>Running Gobuster scan on port '' @ str_port port @ '': '' @ ?cmd)]\<rparr>"
  obtain outp where sp: "spawn e (split_ws ?cmd) = Inr outp"
    using assms(1) by (auto simp: always_runs_def)
  have op: "open_w e ?file = None" using assms(1) by (simp add: always_runs_def)
  let ?w4 = "?w3\<lparr>files := (files ?w3)(?file \<mapsto> outp), trace := trace ?w3 @ [Spawn (split_ws ?cmd) ?file]\<rparr>"
  let ?w5 = "py_print (''Gobuster scan for port '' @ str_port port @
                          '' completed. Results saved to: '' @ ?file) ?w4"
  have step: "run_gobuster e ip (port # ports) out w = run_gobuster e ip ports out ?w5"
    unfolding run_gobuster_Cons [OF i] Let_def run_to_file_ok [OF op sp] by simp
  have len: "length ports \<le> length (stdin ?w5)" using Cons.prems i by simp
  from Cons.IH [OF len] obtain w1 where
    r: "run_gobuster e ip ports out ?w5 = (Inr (), w1)"
    and s: "stdin w1 = drop (length ports) (stdin ?w5)"
    and t: "filter is_interaction (trace w1) =
               filter is_interaction (trace ?w5) @ scan_interactions e ip out ports (stdin ?w5) (ticks ?w5)"
    by blast
  show ?case
    using step r s t i by simp
qed


lemma print_all_fields [simp]:
  "stdin (print_all ss w) = stdin w" "ticks (print_all ss w) = ticks w"
  "files (print_all ss w) = files w" "trace (print_all ss w) = trace w @ map Print ss"
  by (induction ss arbitrary: w) simp_all

lemma no_interaction_in_prints [simp]: "filter is_interaction (map Print ss) = []"
  by (induction ss) simp_all

lemma gobuster_menu_scan_all:
  assumes "stdin w = choice # rest" and "strip choice = ''1''"
  shows "gobuster_menu e t ip out ports w =
     run_gobuster e ip (map IntPort ports) out
       (py_print (''\<newline>Running Gobuster on all detected ports: '' @ port_list ports)
          ((print_all [''\<newline>Do you want to:'',
                       ''1. Scan all detected ports ('' @ port_list ports @ '') with Gobuster'',
                       ''2. Select specific ports'', skip_item t] w)
             \<lparr>stdin := rest,
              trace := trace (print_all [''\<newline>Do you want to:'',
                       ''1. Scan all detected ports ('' @ port_list ports @ '') with Gobuster'',
                       ''2. Select specific ports'', skip_item t] w)
                       @ [Prompt ''Enter your choice (1/2/3): '']\<rparr>))"
proof -
  let ?w1 = "print_all [''\<newline>Do you want to:'',
                       ''1. Scan all detected ports ('' @ port_list ports @ '') with Gobuster'',
                       ''2. Select specific ports'', skip_item t] w"
  have i: "stdin ?w1 = choice # rest" using assms(1) by simp
  show ?thesis
    apply (subst gobuster_menu.simps)
    apply (unfold Let_def)
    apply (subst py_input_Cons [OF i])
    apply (simp add: assms(2) del: print_all.simps)
    done
qed

lemma two_element_list:
  assumes "distinct xs" and "set xs = {a, b}" and "a \<noteq> b"
  shows "xs = [a, b] \<or> xs = [b, a]"
proof -
  have "length xs = 2" using assms distinct_card [OF assms(1)] by simp
  then obtain x y where xs: "xs = [x, y]"
    by (cases xs; cases "tl xs") (auto simp: length_Suc_conv)
  then show ?thesis using assms by (auto simp: doubleton_eq_iff)
qed

lemma join_split_on: "join [sep] (split_on sep s) = s"
proof (induction s)
  case Nil
  show ?case by simp
next
  case (Cons c cs)
  show ?case
  proof (cases "c = sep")
    case True
    then show ?thesis using Cons by (cases "split_on sep cs"; cases "tl (split_on sep cs)") auto
  next
    case False
    then show ?thesis using Cons
      by (cases "split_on sep cs"; cases "tl (split_on sep cs)") auto
  qed
qed

lemma split_on_no_sep: "t \<in> set (split_on sep s) \<Longrightarrow> sep \<notin> set t"
  by (induction s arbitrary: t) (auto split: if_splits list.splits)

text \<open>
  C8. A result file with the lines \<open>22/tcp open ssh\<close>, \<open>80/tcp open http\<close>
  and \<open>443/tcp open https\<close> gives exactly the ports 80 and 443, listed in one of the
  two orders. Choosing "scan all" in the menu runs the content-discovery step over this
  list: for each port in turn one wordlist question and then one start of the tool, and
  nothing else is asked or started. The URL is \<open>http://target:80\<close> for port 80 and
  \<open>https://target:443\<close> for port 443; the scheme is \<open>https\<close> exactly for 443.
  (Every file opens, every command starts, and the input holds the two answers.)
\<close>

theorem scan_all_runs_discovery_once_per_port:
  assumes "files w0 path = Some [''22/tcp open ssh'', ''80/tcp open http'', ''443/tcp open https'']"
      and "lists_elements e {80, 443}"
      and "always_runs e"
      and "stdin w = choice # answers" and "strip choice = ''1''" and "2 \<le> length answers"
  shows "parse_nmap_output e path w0 = (Inr (list_of_set e {80, 443}), w0)
     \<and> (list_of_set e {80, 443} = [80, 443] \<or> list_of_set e {80, 443} = [443, 80])
     \<and> (\<exists>w1. gobuster_menu e t target out (list_of_set e {80, 443}) w = (Inr (), w1)
          \<and> stdin w1 = drop 2 answers
          \<and> filter is_interaction (trace w1) =
              filter is_interaction (trace w) @
              Prompt ''Enter your choice (1/2/3): '' #
              scan_interactions e target out (map IntPort (list_of_set e {80, 443})) answers (ticks w))
     \<and> gobuster_url target (IntPort 80) = ''http://'' @ target @ '':80''
     \<and> gobuster_url target (IntPort 443) = ''https://'' @ target @ '':443''
     \<and> (\<forall>p. gobuster_url target (IntPort p) =
              (if p = 443 then ''https'' else ''http'') @ ''://'' @ target @ '':'' @ str_int p)"
proof -
  let ?ps = "list_of_set e {80, 443}"
  have "scan_lines {} [''22/tcp open ssh'', ''80/tcp open http'', ''443/tcp open https'']
          = Inr {80, 443}"
    by code_simp
  then have a: "parse_nmap_output e path w0 = (Inr ?ps, w0)"
    using assms(1) by (simp add: parse_nmap_output_def)
  have d: "distinct ?ps" and s: "set ?ps = {80, 443}"
    using assms(2) by (simp_all add: lists_elements_def)
  have b: "?ps = [80, 443] \<or> ?ps = [443, 80]"
    using two_element_list [OF d s] by simp
  let ?w2 = "py_print (''\<newline>Running Gobuster on all detected ports: '' @ port_list ?ps)
          ((print_all [''\<newline>Do you want to:'',
                       ''1. Scan all detected ports ('' @ port_list ?ps @ '') with Gobuster'',
                       ''2. Select specific ports'', skip_item t] w)
             \<lparr>stdin := answers,
              trace := trace (print_all [''\<newline>Do you want to:'',
                       ''1. Scan all detected ports ('' @ port_list ?ps @ '') with Gobuster'',
                       ''2. Select specific ports'', skip_item t] w)
                       @ [Prompt ''Enter your choice (1/2/3): '']\<rparr>)"
  have m: "gobuster_menu e t target out ?ps w = run_gobuster e target (map IntPort ?ps) out ?w2"
    by (rule gobuster_menu_scan_all [OF assms(4) assms(5)])
  have len: "length ?ps = 2" using b by auto
  have l2: "length (map IntPort ?ps) \<le> length (stdin ?w2)" using len assms(6) by simp
  from run_gobuster_succeeds [OF assms(3) l2, of target out]
  obtain w1 where r: "run_gobuster e target (map IntPort ?ps) out ?w2 = (Inr (), w1)"
    and s1: "stdin w1 = drop (length (map IntPort ?ps)) (stdin ?w2)"
    and t1: "filter is_interaction (trace w1) =
               filter is_interaction (trace ?w2) @
               scan_interactions e target out (map IntPort ?ps) (stdin ?w2) (ticks ?w2)"
    by blast
  have c: "\<exists>w1. gobuster_menu e t target out ?ps w = (Inr (), w1)
          \<and> stdin w1 = drop 2 answers
          \<and> filter is_interaction (trace w1) =
              filter is_interaction (trace w) @
              Prompt ''Enter your choice (1/2/3): '' #
              scan_interactions e target out (map IntPort ?ps) answers (ticks w)"
    using m r s1 t1 len by simp
  have u80: "gobuster_url target (IntPort 80) = ''http://'' @ target @ '':80''"
  proof -
    have "str_int 80 = ''80''" by code_simp
    then show ?thesis by (simp add: gobuster_url_def)
  qed
  have u443: "gobuster_url target (IntPort 443) = ''https://'' @ target @ '':443''"
  proof -
    have "str_int 443 = ''443''" by code_simp
    then show ?thesis by (simp add: gobuster_url_def)
  qed
  have g: "\<forall>p. gobuster_url target (IntPort p) =
              (if p = 443 then ''https'' else ''http'') @ ''://'' @ target @ '':'' @ str_int p"
    by (simp add: gobuster_url_def)
  from a b c u80 u443 g show ?thesis by blast
qed

lemma quiet_env_always_runs: "always_runs quiet_env"
  by (simp add: always_runs_def quiet_env_def)

theorem scan_all_runs_discovery_once_per_port_witness:
  "parse_nmap_output quiet_env ''scan.txt''
     (world_of [] [''scan.txt'' \<mapsto> [''22/tcp open ssh'', ''80/tcp open http'', ''443/tcp open https'']])
     = (Inr [80, 443],
        world_of [] [''scan.txt'' \<mapsto> [''22/tcp open ssh'', ''80/tcp open http'', ''443/tcp open https'']])
   \<and> (\<exists>w1. gobuster_menu quiet_env nmap_texts ''10.0.0.5'' ''out'' [80, 443]
              (world_of ['' 1'', ''common.txt'', ''big.txt''] Map.empty) = (Inr (), w1)
          \<and> stdin w1 = []
          \<and> filter is_interaction (trace w1) =
              [Prompt ''Enter your choice (1/2/3): '',
               Prompt ''Enter the path to your wordlist for port 80: '',
               Spawn [''gobuster'', ''dir'', ''-u'', ''http://10.0.0.5:80'', ''-w'', ''common.txt'']
                     ''out/80_gobuster_scan_2024_01_01_00_00_00.txt'',
               Prompt ''Enter the path to your wordlist for port 443: '',
               Spawn [''gobuster'', ''dir'', ''-u'', ''https://10.0.0.5:443'', ''-w'', ''big.txt'']
                     ''out/443_gobuster_scan_2024_01_01_00_00_00.txt''])"
proof -
  let ?scanned = "world_of [] [''scan.txt'' \<mapsto> [''22/tcp open ssh'', ''80/tcp open http'', ''443/tcp open https'']]"
  let ?w = "world_of ['' 1'', ''common.txt'', ''big.txt''] Map.empty"
  have f: "files ?scanned ''scan.txt'' = Some [''22/tcp open ssh'', ''80/tcp open http'', ''443/tcp open https'']"
    by (simp add: world_of_def)
  have "sorted_list_of_set {80, 443 :: int} = [80, 443]" by code_simp
  then have l: "list_of_set quiet_env {80, 443} = [80, 443]" by (simp add: quiet_env_def)
  have le: "lists_elements quiet_env {80, 443}" by (simp add: lists_elements_def l)
  have i: "stdin ?w = '' 1'' # [''common.txt'', ''big.txt'']" by (simp add: world_of_def)
  have c: "strip '' 1'' = ''1''" by code_simp
  have n: "2 \<le> length [''common.txt'', ''big.txt'']" by simp
  have tr: "filter is_interaction (trace ?w) = []" "ticks ?w = 0" by (simp_all add: world_of_def)
  have si: "scan_interactions quiet_env ''10.0.0.5'' ''out'' (map IntPort [80, 443])
              [''common.txt'', ''big.txt''] 0 =
              [Prompt ''Enter the path to your wordlist for port 80: '',
               Spawn [''gobuster'', ''dir'', ''-u'', ''http://10.0.0.5:80'', ''-w'', ''common.txt'']
                     ''out/80_gobuster_scan_2024_01_01_00_00_00.txt'',
               Prompt ''Enter the path to your wordlist for port 443: '',
               Spawn [''gobuster'', ''dir'', ''-u'', ''https://10.0.0.5:443'', ''-w'', ''big.txt'']
                     ''out/443_gobuster_scan_2024_01_01_00_00_00.txt'']"
    by code_simp
  note t = scan_all_runs_discovery_once_per_port
            [OF f le quiet_env_always_runs i c n, of nmap_texts "''10.0.0.5''" "''out''",
             unfolded l tr si]
  from t show ?thesis by simp
qed

text \<open>
  C9. With the top-level choice 2 the line the user types is split at the commas and the
  pieces go to the content-discovery runner as they are: joining them with commas gives
  the line back. A piece is a string, so the comparison with 443 is false and the URL is
  \<open>http://\<close>, the target, a colon and the piece itself, also for the piece \<open>443\<close>
  and with the white space of the piece inside the URL.
\<close>

theorem typed_ports_always_use_http:
  "(stdin w = l # rest \<longrightarrow>
      gobuster_branch e ip out w =
        run_gobuster e ip (map StrPort (split_on (CHR '','') l)) out
          (w\<lparr>stdin := rest,
             trace := trace w @ [Print ''\<newline>Configuring Gobuster scan...'',
                                 Prompt ''Enter the ports to scan (comma-separated, e.g., 80,443): '']\<rparr>))
   \<and> join '','' (split_on (CHR '','') l) = l
   \<and> \<not> equals_443 (StrPort tok)
   \<and> gobuster_url ip (StrPort tok) = ''http://'' @ ip @ '':'' @ tok
   \<and> (always_runs e \<and> stdin w = l # rest \<and> length (split_on (CHR '','') l) \<le> length rest \<longrightarrow>
        (\<exists>w1. gobuster_branch e ip out w = (Inr (), w1)
           \<and> filter is_interaction (trace w1) =
               filter is_interaction (trace w) @
               Prompt ''Enter the ports to scan (comma-separated, e.g., 80,443): '' #
               scan_interactions e ip out (map StrPort (split_on (CHR '','') l)) rest (ticks w)))
   \<and> split_on (CHR '','') ''80, 443'' = [''80'', '' 443'']
   \<and> gobuster_url ip (StrPort ''443'') = ''http://'' @ ip @ '':443''
   \<and> gobuster_url ip (StrPort '' 443'') = ''http://'' @ ip @ '': 443''"
proof -
  let ?w1 = "w\<lparr>stdin := rest,
             trace := trace w @ [Print ''\<newline>Configuring Gobuster scan...'',
                                 Prompt ''Enter the ports to scan (comma-separated, e.g., 80,443): '']\<rparr>"
  have a: "stdin w = l # rest \<Longrightarrow>
      gobuster_branch e ip out w = run_gobuster e ip (map StrPort (split_on (CHR '','') l)) out ?w1"
    by (simp add: gobuster_branch_def py_input_def py_print_def)
  have b: "join '','' (split_on (CHR '','') l) = l" by (rule join_split_on)
  have c: "\<not> equals_443 (StrPort tok)" by simp
  have d: "\<And>t. gobuster_url ip (StrPort t) = ''http://'' @ ip @ '':'' @ t"
    by (simp add: gobuster_url_def)
  have g: "always_runs e \<and> stdin w = l # rest \<and> length (split_on (CHR '','') l) \<le> length rest \<longrightarrow>
        (\<exists>w1. gobuster_branch e ip out w = (Inr (), w1)
           \<and> filter is_interaction (trace w1) =
               filter is_interaction (trace w) @
               Prompt ''Enter the ports to scan (comma-separated, e.g., 80,443): '' #
               scan_interactions e ip out (map StrPort (split_on (CHR '','') l)) rest (ticks w))"
  proof
    assume h: "always_runs e \<and> stdin w = l # rest \<and> length (split_on (CHR '','') l) \<le> length rest"
    then have len: "length (map StrPort (split_on (CHR '','') l)) \<le> length (stdin ?w1)" by simp
    from run_gobuster_succeeds [OF _ len, of e ip out] h
    obtain w2 where "run_gobuster e ip (map StrPort (split_on (CHR '','') l)) out ?w1 = (Inr (), w2)"
      and "filter is_interaction (trace w2) =
             filter is_interaction (trace ?w1) @
             scan_interactions e ip out (map StrPort (split_on (CHR '','') l)) (stdin ?w1) (ticks ?w1)"
      by blast
    then show "\<exists>w1. gobuster_branch e ip out w = (Inr (), w1)
           \<and> filter is_interaction (trace w1) =
               filter is_interaction (trace w) @
               Prompt ''Enter the ports to scan (comma-separated, e.g., 80,443): '' #
               scan_interactions e ip out (map StrPort (split_on (CHR '','') l)) rest (ticks w)"
      using a h by simp
  qed
  have s: "split_on (CHR '','') ''80, 443'' = [''80'', '' 443'']" by code_simp
  from a b c d g s show ?thesis by simp
qed

theorem typed_ports_always_use_http_witness:
  "(\<exists>w1. gobuster_branch quiet_env ''10.0.0.5'' ''out''
            (world_of [''443, 80'', ''common.txt'', ''big.txt''] Map.empty) = (Inr (), w1)
       \<and> filter is_interaction (trace w1) =
           [Prompt ''Enter the ports to scan (comma-separated, e.g., 80,443): '',
            Prompt ''Enter the path to your wordlist for port 443: '',
            Spawn [''gobuster'', ''dir'', ''-u'', ''http://10.0.0.5:443'', ''-w'', ''common.txt'']
                  ''out/443_gobuster_scan_2024_01_01_00_00_00.txt'',
            Prompt ''Enter the path to your wordlist for port  80: '',
            Spawn [''gobuster'', ''dir'', ''-u'', ''http://10.0.0.5:'', ''80'', ''-w'', ''big.txt'']
                  ''out/ 80_gobuster_scan_2024_01_01_00_00_00.txt''])"
proof -
  let ?w = "world_of [''443, 80'', ''common.txt'', ''big.txt''] Map.empty"
  have i: "stdin ?w = ''443, 80'' # [''common.txt'', ''big.txt'']" by (simp add: world_of_def)
  have sp: "split_on (CHR '','') ''443, 80'' = [''443'', '' 80'']" by code_simp
  have tr: "filter is_interaction (trace ?w) = []" "ticks ?w = 0" by (simp_all add: world_of_def)
  have si: "scan_interactions quiet_env ''10.0.0.5'' ''out'' (map StrPort [''443'', '' 80''])
              [''common.txt'', ''big.txt''] 0 =
           [Prompt ''Enter the path to your wordlist for port 443: '',
            Spawn [''gobuster'', ''dir'', ''-u'', ''http://10.0.0.5:443'', ''-w'', ''common.txt'']
                  ''out/443_gobuster_scan_2024_01_01_00_00_00.txt'',
            Prompt ''Enter the path to your wordlist for port  80: '',
            Spawn [''gobuster'', ''dir'', ''-u'', ''http://10.0.0.5:'', ''80'', ''-w'', ''big.txt'']
                  ''out/ 80_gobuster_scan_2024_01_01_00_00_00.txt'']"
    by code_simp
  have h: "always_runs quiet_env \<and> stdin ?w = ''443, 80'' # [''common.txt'', ''big.txt'']
             \<and> length (split_on (CHR '','') ''443, 80'') \<le> length [''common.txt'', ''big.txt'']"
    using quiet_env_always_runs i sp by simp
  note t = typed_ports_always_use_http
            [of ?w "''443, 80''" "[''common.txt'', ''big.txt'']" quiet_env "''10.0.0.5''" "''out''"]
  from t [THEN conjunct2, THEN conjunct2, THEN conjunct2, THEN conjunct2, THEN conjunct1] h
  have "\<exists>w1. gobuster_branch quiet_env ''10.0.0.5'' ''out'' ?w = (Inr (), w1)
           \<and> filter is_interaction (trace w1) =
               filter is_interaction (trace ?w) @
               Prompt ''Enter the ports to scan (comma-separated, e.g., 80,443): '' #
               scan_interactions quiet_env ''10.0.0.5'' ''out''
                 (map StrPort (split_on (CHR '','') ''443, 80'')) [''common.txt'', ''big.txt''] (ticks ?w)"
    by (rule mp)
  then show ?thesis
    unfolding sp tr si by simp
qed

lemma collect_options_fields:
  "collect_options opts w = (r, w1) \<Longrightarrow> files w1 = files w \<and> ticks w1 = ticks w"
proof (induction opts w arbitrary: r w1 rule: collect_options.induct)
  case (1 nmap_options w)
  show ?case
  proof (cases "stdin w")
    case Nil
    then show ?thesis
      using "1.prems" by (subst (asm) collect_options.simps) (auto simp: py_input_Nil)
  next
    case (Cons l rest)
    let ?w1 = "w\<lparr>stdin := rest, trace := trace w @ [Prompt ''Enter your choice (1-10 or 'done'): '']\<rparr>"
    have i: "py_input ''Enter your choice (1-10 or 'done'): '' w = (Inr l, ?w1)"
      using Cons by (rule py_input_Cons)
    show ?thesis
    proof (cases "strip l = ''done''")
      case True
      then show ?thesis
        using "1.prems" i
        by (subst (asm) collect_options.simps) (auto simp: Let_def split: if_splits)
    next
      case False
      note nd = this
      show ?thesis
      proof (cases "option_mapping (strip l)")
        case None
        have "collect_options nmap_options
                (py_print ''Invalid choice. Please select a valid option.'' ?w1) = (r, w1)"
          using "1.prems" i nd None by (subst (asm) collect_options.simps) (simp add: Let_def)
        then show ?thesis
          using "1.IH"(1) [OF i [symmetric] refl refl nd None] by simp
      next
        case (Some opt)
        show ?thesis
        proof (cases "opt \<in> set nmap_options")
          case True
          have "collect_options nmap_options
                  (py_print (''Option '' @ strip l @ '' already added.'') ?w1) = (r, w1)"
            using "1.prems" i nd Some True
            by (subst (asm) collect_options.simps) (simp add: Let_def)
          then show ?thesis
            using "1.IH"(3) [OF i [symmetric] refl refl nd Some] True by simp
        next
          case False
          have "collect_options (nmap_options @ [opt])
                  (py_print (''Added option '' @ strip l) ?w1) = (r, w1)"
            using "1.prems" i nd Some False
            by (subst (asm) collect_options.simps) (simp add: Let_def)
          then show ?thesis
            using "1.IH"(2) [OF i [symmetric] refl refl nd Some False] by simp
        qed
      qed
    qed
  qed
qed


text \<open>The runner after the options have been collected.\<close>

lemma run_nmap_after_options:
  assumes "collect_options [] (print_all nmap_menu w) = (Inr opts, w1)"
  shows "run_nmap e ip out w =
     (let output_file = nmap_output_file ip out (clock e (ticks w));
          command = nmap_command opts ip;
          w3 = py_print (''\<newline>Running the Nmap scan: '' @ command)
                 (w1\<lparr>ticks := Suc (ticks w)\<rparr>)
      in case run_to_file e output_file (split_ws command) w3 of
           (Inr u, w4) \<Rightarrow>
             (Inr output_file,
              py_print (''\<newline>Nmap scan completed. Results saved to: '' @ output_file) w4)
         | (Inl (FileNotFoundError msg), w4) \<Rightarrow>
             (Inr output_file, py_print (''Error saving results: '' @ msg) w4)
         | (Inl err, w4) \<Rightarrow> (Inl err, w4))"
proof -
  have t: "ticks w1 = ticks w" using collect_options_fields [OF assms] by simp
  show ?thesis
    unfolding run_nmap_def assms
    by (simp add: timestamp_now_def Let_def t split: prod.splits sum.splits py_error.splits)
qed

lemma collect_options_files:
  "collect_options [] (print_all nmap_menu w) = (r, w1) \<Longrightarrow> files w1 = files w"
  using collect_options_fields [of "[]" "print_all nmap_menu w" r w1] by simp

lemma parse_no_candidates:
  assumes "files w path = Some lines" and "filter candidate_web_service lines = []"
  shows "parse_nmap_output e path w = (Inr (list_of_set e {}), w)"
proof -
  have "ports_of_lines lines = {}"
    using assms(2) by (auto simp: ports_of_lines_def filter_empty_conv)
  then show ?thesis
    using assms by (simp add: parse_nmap_output_def scan_lines_acc)
qed

text \<open>
  C10, amended. Once the scan options are read, the port-scan runner returns the path of
  the output file also when opening the file fails with \<open>FileNotFoundError\<close> and
  when the scanner cannot be started because it is missing; parsing that file then gives
  no port, as it does after a scan that reported no web service, and the caller goes on
  in the same way in all three cases.
\<close>

theorem failed_scan_looks_like_empty_scan:
  assumes "collect_options [] (print_all nmap_menu w) = (Inr opts, w1)"
      and "no_web_ports_outcome e w (nmap_output_file ip out (clock e (ticks w)))
             (split_ws (nmap_command opts ip))"
      and "lists_elements e {}"
  shows "fst (run_nmap e ip out w) = Inr (nmap_output_file ip out (clock e (ticks w)))
     \<and> fst (scan_and_parse e ip out w) = Inr (nmap_output_file ip out (clock e (ticks w)), [])
     \<and> (\<exists>w2. nmap_branch e ip out w = (Inr (), w2)
           \<and> last (trace w2) = Print ''No potential web application ports detected. Skipping Gobuster.'')"
proof -
  let ?path = "nmap_output_file ip out (clock e (ticks w))"
  let ?argv = "split_ws (nmap_command opts ip)"
  let ?w3 = "py_print (''\<newline>Running the Nmap scan: '' @ nmap_command opts ip)
                 (w1\<lparr>ticks := Suc (ticks w)\<rparr>)"
  have f1: "files w1 = files w" using collect_options_files [OF assms(1)] .
  have e0: "list_of_set e {} = []" using assms(3) by (simp add: lists_elements_def)
  have "\<exists>w2 w3. run_nmap e ip out w = (Inr ?path, w2) \<and> parse_nmap_output e ?path w2 = (Inr [], w3)"
    using assms(2) unfolding no_web_ports_outcome_def
  proof (elim disjE exE conjE)
    fix msg
    assume o: "open_w e ?path = Some (FileNotFoundError msg)" and m: "files w ?path = None"
    have "run_nmap e ip out w = (Inr ?path, py_print (''Error saving results: '' @ msg) ?w3)"
      unfolding run_nmap_after_options [OF assms(1)] Let_def run_to_file_not_opened [OF o] by simp
    moreover have "files (py_print (''Error saving results: '' @ msg) ?w3) ?path = None"
      using m f1 by simp
    ultimately show ?thesis
      using e0 by (simp add: parse_nmap_output_def)
  next
    fix msg
    assume o: "open_w e ?path = None" and s: "spawn e ?argv = Inl (FileNotFoundError msg)"
    let ?w4 = "?w3\<lparr>files := (files ?w3)(?path \<mapsto> []), trace := trace ?w3 @ [Spawn ?argv ?path]\<rparr>"
    have "run_nmap e ip out w = (Inr ?path, py_print (''Error saving results: '' @ msg) ?w4)"
      unfolding run_nmap_after_options [OF assms(1)] Let_def run_to_file_not_launched [OF o s]
      by simp
    moreover have "files (py_print (''Error saving results: '' @ msg) ?w4) ?path = Some []"
      by simp
    ultimately show ?thesis
      using e0 by (simp add: parse_nmap_output_def)
  next
    fix lines
    assume o: "open_w e ?path = None" and s: "spawn e ?argv = Inr lines"
      and n: "filter candidate_web_service lines = []"
    let ?w4 = "?w3\<lparr>files := (files ?w3)(?path \<mapsto> lines), trace := trace ?w3 @ [Spawn ?argv ?path]\<rparr>"
    let ?w5 = "py_print (''\<newline>Nmap scan completed. Results saved to: '' @ ?path) ?w4"
    have r: "run_nmap e ip out w = (Inr ?path, ?w5)"
      unfolding run_nmap_after_options [OF assms(1)] Let_def run_to_file_ok [OF o s] by simp
    have "files ?w5 ?path = Some lines" by simp
    from parse_no_candidates [OF this n, of e] r e0 show ?thesis by simp
  qed
  then obtain w2 w3 where r: "run_nmap e ip out w = (Inr ?path, w2)"
    and p: "parse_nmap_output e ?path w2 = (Inr [], w3)"
    by blast
  have a: "fst (run_nmap e ip out w) = Inr ?path" using r by simp
  have sp: "scan_and_parse e ip out w = (Inr (?path, []), w3)"
    unfolding scan_and_parse_def r using p by simp
  have b: "fst (scan_and_parse e ip out w) = Inr (?path, [])" using sp by simp
  have c: "\<exists>w2. nmap_branch e ip out w = (Inr (), w2)
           \<and> last (trace w2) = Print ''No potential web application ports detected. Skipping Gobuster.''"
    unfolding nmap_branch_def sp by simp
  from a b c show ?thesis by simp
qed

theorem failed_scan_looks_like_empty_scan_witness:
  "fst (scan_and_parse missing_dir_env ''example.com/app'' ''out'' (world_of [''done''] Map.empty))
     = Inr (''out/nmap_scan_example.com/app_2024_01_01_00_00_00.txt'', [])
   \<and> fst (scan_and_parse quiet_env ''example.com/app'' ''out'' (world_of [''done''] Map.empty))
     = Inr (''out/nmap_scan_example.com/app_2024_01_01_00_00_00.txt'', [])"
proof -
  let ?w = "world_of [''done''] Map.empty"
  let ?w1 = "snd (collect_options [] (print_all nmap_menu ?w))"
  have "fst (collect_options [] (print_all nmap_menu ?w)) = Inr [[]]" by code_simp
  then have co: "collect_options [] (print_all nmap_menu ?w) = (Inr [[]], ?w1)"
    by (metis prod.collapse)
  have p1: "nmap_output_file ''example.com/app'' ''out'' (clock missing_dir_env (ticks ?w))
              = ''out/nmap_scan_example.com/app_2024_01_01_00_00_00.txt''"
    by code_simp
  have p2: "nmap_output_file ''example.com/app'' ''out'' (clock quiet_env (ticks ?w))
              = ''out/nmap_scan_example.com/app_2024_01_01_00_00_00.txt''"
    by code_simp
  have o1: "no_web_ports_outcome missing_dir_env ?w
              (nmap_output_file ''example.com/app'' ''out'' (clock missing_dir_env (ticks ?w)))
              (split_ws (nmap_command [[]] ''example.com/app''))"
    by (simp add: no_web_ports_outcome_def missing_dir_env_def world_of_def)
  have o2: "no_web_ports_outcome quiet_env ?w
              (nmap_output_file ''example.com/app'' ''out'' (clock quiet_env (ticks ?w)))
              (split_ws (nmap_command [[]] ''example.com/app''))"
    by (simp add: no_web_ports_outcome_def quiet_env_def)
  have l1: "lists_elements missing_dir_env {}"
    by (simp add: lists_elements_def missing_dir_env_def quiet_env_def)
  have l2: "lists_elements quiet_env {}"
    by (simp add: lists_elements_def quiet_env_def)
  show ?thesis
    using failed_scan_looks_like_empty_scan [OF co o1 l1, unfolded p1]
      failed_scan_looks_like_empty_scan [OF co o2 l2, unfolded p2]
    by simp
qed

text \<open>
  C10, as stated, fails: the path is not returned whenever opening fails. When the
  output file may not be written the runner raises \<open>PermissionError\<close>.
\<close>

theorem run_nmap_raises_when_open_is_denied:
  "fst (run_nmap locked_env ''10.0.0.5'' ''out'' (world_of [''done''] Map.empty))
     = Inl (PermissionError ''Permission denied'')"
  by code_simp




end
